theory Spec2Isabelle
  imports Main "HOL-Library.Sublist" "HOL-Library.Word"
begin

section \<open>Errors\<close>

text \<open>
  The program reports failures as Go \<^verbatim>\<open>error\<close> values built with \<^verbatim>\<open>fmt.Errorf\<close>.
  An error of the operating system is an errno; \<^verbatim>\<open>fmt.Errorf("msg: %w", err)\<close> is
  \<open>Wrapf msg err\<close>; \<^verbatim>\<open>fmt.Errorf("msg: %w\nOutput: %s", err, out)\<close> is
  \<open>WrapOutf msg err out\<close>; an error of an external collaborator (network, decoder,
  child process) is \<open>External\<close> with its text.
\<close>

datatype errno = ENOENT | ENOTDIR | EISDIR | EEXIST

datatype error =
    PathError errno
  | External string
  | Errorf string
  | Wrapf string error
  | WrapOutf string error string

section \<open>Paths: the functions of path/filepath used by the program (Unix)\<close>

fun splitSlashAcc :: "string \<Rightarrow> string \<Rightarrow> string list" where
  "splitSlashAcc cur [] = [rev cur]"
| "splitSlashAcc cur (c # cs) =
     (if c = CHR ''/'' then rev cur # splitSlashAcc [] cs else splitSlashAcc (c # cur) cs)"

definition splitSlash :: "string \<Rightarrow> string list" where
  "splitSlash p = splitSlashAcc [] p"

fun joinSlash :: "string list \<Rightarrow> string" where
  "joinSlash [] = []"
| "joinSlash [e] = e"
| "joinSlash (e # es) = e @ ''/'' @ joinSlash es"

text \<open>
  The element loop of \<^verbatim>\<open>filepath.Clean\<close>: \<open>out\<close> is the output so far, last element
  first. An empty element and \<^verbatim>\<open>.\<close> are dropped; \<^verbatim>\<open>..\<close> removes the element before it
  when there is one that is not itself \<^verbatim>\<open>..\<close>, is dropped at the root of a rooted
  path, and is kept otherwise.
\<close>

fun cleanElems :: "bool \<Rightarrow> string list \<Rightarrow> string list \<Rightarrow> string list" where
  "cleanElems rooted out [] = rev out"
| "cleanElems rooted out (e # es) =
     (if e = [] \<or> e = ''.'' then cleanElems rooted out es
      else if e = ''..'' then
        (if out \<noteq> [] \<and> hd out \<noteq> ''..'' then cleanElems rooted (tl out) es
         else if rooted then cleanElems rooted out es
         else cleanElems rooted (e # out) es)
      else cleanElems rooted (e # out) es)"

definition IsAbs :: "string \<Rightarrow> bool" where
  "IsAbs p = (p \<noteq> [] \<and> hd p = CHR ''/'')"

definition Clean :: "string \<Rightarrow> string" where
  "Clean p =
     (if p = [] then ''.''
      else let body = joinSlash (cleanElems (IsAbs p) [] (splitSlash p))
           in if IsAbs p then CHR ''/'' # body
              else if body = [] then ''.'' else body)"

text \<open>\<^verbatim>\<open>filepath.Join\<close>: the elements from the first non-empty one on, joined and cleaned.\<close>

definition Join :: "string list \<Rightarrow> string" where
  "Join elems =
     (let es = dropWhile (\<lambda>e. e = []) elems
      in if es = [] then [] else Clean (joinSlash es))"

text \<open>\<^verbatim>\<open>filepath.Dir\<close>: the path up to and including its last separator, cleaned.\<close>

definition Dir_of :: "string \<Rightarrow> string" where
  "Dir_of p = Clean (rev (dropWhile (\<lambda>c. c \<noteq> CHR ''/'') (rev p)))"

text \<open>\<^verbatim>\<open>filepath.Ext\<close>: the suffix of the last element from its last dot on.\<close>

definition Ext :: "string \<Rightarrow> string" where
  "Ext p =
     (let e = takeWhile (\<lambda>c. c \<noteq> CHR ''/'') (rev p)
      in if CHR ''.'' \<in> set e then CHR ''.'' # rev (takeWhile (\<lambda>c. c \<noteq> CHR ''.'') e) else [])"

definition HasPrefix :: "string \<Rightarrow> string \<Rightarrow> bool" where
  "HasPrefix s pre = prefix pre s"

definition TrimPrefix :: "string \<Rightarrow> string \<Rightarrow> string" where
  "TrimPrefix s pre = (if prefix pre s then drop (length pre) s else s)"

section \<open>The data model\<close>

record Repository =
  Type :: string
  URL :: string
  Branch :: string

record Source =
  Path :: string
  EntryPoint :: string
  Repo :: Repository

record PluginManifest =
  Name :: string
  Version :: string
  Description :: string
  Author :: string
  Sources :: "Source list"

text \<open>A catalog entry (\<^verbatim>\<open>Plugin\<close> of the catalog types) and the catalog's plugin mapping.\<close>

record CatalogPlugin =
  CPath :: string
  CVersion :: string
  CDescription :: string

record GitspaceCatalog =
  Plugins :: "string \<rightharpoonup> CatalogPlugin"

section \<open>The file system\<close>

text \<open>
  A file system is a map from absolute paths, as lists of elements below the root, to
  nodes: a regular file with its permission bits and bytes, or a directory with its
  permission bits. Symbolic links, ownership and permission checks are not modelled: an
  operation fails only for the structural reasons (a missing node, a file where a
  directory is needed, a directory where a file is needed, a name already taken).
\<close>

datatype node = File "32 word" string | Dir "32 word"

type_synonym fs = "string list \<Rightarrow> node option"

record http_response =
  StatusCode :: nat
  Status :: string
  Body :: string
  BodyError :: "error option"

text \<open>
  The environment of a run: what the operating system, the network and the external
  tools answer. \<open>goCommand args dir\<close> is \<^verbatim>\<open>exec.Command("go", args...)\<close> run with
  \<^verbatim>\<open>cmd.Dir = dir\<close>, and \<open>gitCloneCommand url dest\<close> is
  \<^verbatim>\<open>exec.Command("git", "clone", url, dest)\<close>; each answers \<^verbatim>\<open>CombinedOutput\<close>'s
  error and output, and the file system it leaves. \<open>fetchGitspaceCatalog\<close> is
  \<^verbatim>\<open>lib.FetchGitspaceCatalog\<close>, \<open>tomlUnmarshal\<close> is \<^verbatim>\<open>toml.Unmarshal\<close> into a
  \<^verbatim>\<open>PluginManifest\<close>, \<open>randomNames\<close> are the names \<^verbatim>\<open>os.MkdirTemp\<close> tries in turn.
\<close>

record env =
  userHomeDir :: "error + string"
  getwd :: "error + string"
  tempDirRoot :: string
  randomNames :: "string list"
  runtimeVersion :: string
  tomlUnmarshal :: "string \<Rightarrow> error + PluginManifest"
  httpGet :: "string \<Rightarrow> error + http_response"
  fetchGitspaceCatalog :: "string \<Rightarrow> string \<Rightarrow> error + GitspaceCatalog"
  goCommand :: "string list \<Rightarrow> string \<Rightarrow> fs \<Rightarrow> (error \<times> string) option \<times> fs"
  gitCloneCommand :: "string \<Rightarrow> string \<Rightarrow> fs \<Rightarrow> (error \<times> string) option \<times> fs"

text \<open>
  The node a path names: an absolute path is resolved from the root, a relative one from
  the working directory. The empty path names nothing.
\<close>

definition absKey :: "string \<Rightarrow> string list" where
  "absKey p = cleanElems True [] (splitSlash p)"

definition keyOf :: "env \<Rightarrow> string \<Rightarrow> string list option" where
  "keyOf E p =
     (if p = [] then None
      else if IsAbs p then Some (absKey p)
      else (case getwd E of
              Inl e \<Rightarrow> None
            | Inr wd \<Rightarrow> Some (absKey (wd @ ''/'' @ p))))"

definition isFileAt :: "fs \<Rightarrow> string list \<Rightarrow> bool" where
  "isFileAt f k = (case f k of Some (File m c) \<Rightarrow> True | _ \<Rightarrow> False)"

definition isDirAt :: "fs \<Rightarrow> string list \<Rightarrow> bool" where
  "isDirAt f k = (case f k of Some (Dir m) \<Rightarrow> True | _ \<Rightarrow> False)"

text \<open>Some directory on the way to \<open>k\<close> is a regular file (the lookup fails with ENOTDIR).\<close>

definition fileAbove :: "fs \<Rightarrow> string list \<Rightarrow> bool" where
  "fileAbove f k = list_ex (\<lambda>j. isFileAt f (take j k)) [0..<length k]"

definition os_Stat :: "env \<Rightarrow> string \<Rightarrow> fs \<Rightarrow> error + node" where
  "os_Stat E p f =
     (case keyOf E p of
        None \<Rightarrow> Inl (PathError ENOENT)
      | Some k \<Rightarrow>
          if fileAbove f k then Inl (PathError ENOTDIR)
          else (case f k of None \<Rightarrow> Inl (PathError ENOENT) | Some n \<Rightarrow> Inr n))"

definition os_ReadFile :: "env \<Rightarrow> string \<Rightarrow> fs \<Rightarrow> error + string" where
  "os_ReadFile E p f =
     (case keyOf E p of
        None \<Rightarrow> Inl (PathError ENOENT)
      | Some k \<Rightarrow>
          if fileAbove f k then Inl (PathError ENOTDIR)
          else (case f k of
                  None \<Rightarrow> Inl (PathError ENOENT)
                | Some (Dir m) \<Rightarrow> Inl (PathError EISDIR)
                | Some (File m c) \<Rightarrow> Inr c))"

text \<open>
  \<^verbatim>\<open>os.WriteFile\<close> (and \<^verbatim>\<open>os.Create\<close> followed by a write): a new file gets the
  permission bits asked for; an existing file is truncated and rewritten and keeps its
  permission bits.
\<close>

definition os_WriteFile :: "env \<Rightarrow> string \<Rightarrow> string \<Rightarrow> 32 word \<Rightarrow> fs \<Rightarrow> error + fs" where
  "os_WriteFile E p data perm f =
     (case keyOf E p of
        None \<Rightarrow> Inl (PathError ENOENT)
      | Some k \<Rightarrow>
          if fileAbove f k then Inl (PathError ENOTDIR)
          else (case f k of
                  Some (Dir m) \<Rightarrow> Inl (PathError EISDIR)
                | Some (File m c) \<Rightarrow> Inr (f(k \<mapsto> File m data))
                | None \<Rightarrow>
                    if k \<noteq> [] \<and> isDirAt f (butlast k) then Inr (f(k \<mapsto> File perm data))
                    else Inl (PathError ENOENT)))"

definition os_Mkdir :: "env \<Rightarrow> string \<Rightarrow> 32 word \<Rightarrow> fs \<Rightarrow> error + fs" where
  "os_Mkdir E p perm f =
     (case keyOf E p of
        None \<Rightarrow> Inl (PathError ENOENT)
      | Some k \<Rightarrow>
          if fileAbove f k then Inl (PathError ENOTDIR)
          else if f k \<noteq> None then Inl (PathError EEXIST)
          else if k \<noteq> [] \<and> isDirAt f (butlast k) then Inr (f(k \<mapsto> Dir perm))
          else Inl (PathError ENOENT))"

text \<open>
  \<^verbatim>\<open>os.MkdirAll\<close>: creates the directory and every missing parent; fails when the path
  or one of its parents is a regular file; does nothing when the directory exists.
\<close>

definition os_MkdirAll :: "env \<Rightarrow> string \<Rightarrow> 32 word \<Rightarrow> fs \<Rightarrow> error + fs" where
  "os_MkdirAll E p perm f =
     (case keyOf E p of
        None \<Rightarrow> Inl (PathError ENOENT)
      | Some k \<Rightarrow>
          if fileAbove f k \<or> isFileAt f k then Inl (PathError ENOTDIR)
          else Inr (\<lambda>q. case f q of
                           None \<Rightarrow> if prefix q k then Some (Dir perm) else None
                         | Some n \<Rightarrow> Some n))"

text \<open>
  \<^verbatim>\<open>os.RemoveAll\<close>: removes the node and everything below it; a path that names
  nothing is no error; a regular file on the way to it is one.
\<close>

definition os_RemoveAll :: "env \<Rightarrow> string \<Rightarrow> fs \<Rightarrow> error + fs" where
  "os_RemoveAll E p f =
     (case keyOf E p of
        None \<Rightarrow> Inr f
      | Some k \<Rightarrow>
          if fileAbove f k then Inl (PathError ENOTDIR)
          else Inr (\<lambda>q. if prefix k q then None else f q))"

text \<open>
  \<^verbatim>\<open>os.MkdirTemp("", pattern)\<close>: the pattern is split at its last star, the directory is
  \<^verbatim>\<open>os.TempDir()\<close>, and the candidate names are tried until one is free.
\<close>

definition prefixAndSuffix :: "string \<Rightarrow> string \<times> string" where
  "prefixAndSuffix pattern =
     (if CHR ''*'' \<in> set pattern
      then (rev (tl (dropWhile (\<lambda>c. c \<noteq> CHR ''*'') (rev pattern))),
            rev (takeWhile (\<lambda>c. c \<noteq> CHR ''*'') (rev pattern)))
      else (pattern, []))"

definition joinPath :: "string \<Rightarrow> string \<Rightarrow> string" where
  "joinPath dir name =
     (if dir \<noteq> [] \<and> last dir = CHR ''/'' then dir @ name else dir @ ''/'' @ name)"

fun mkdirTempLoop :: "env \<Rightarrow> string \<Rightarrow> string \<Rightarrow> string list \<Rightarrow> fs \<Rightarrow> error + (string \<times> fs)" where
  "mkdirTempLoop E pre suf [] f = Inl (PathError EEXIST)"
| "mkdirTempLoop E pre suf (r # rs) f =
     (case os_Mkdir E (pre @ r @ suf) 448 f of
        Inr f' \<Rightarrow> Inr (pre @ r @ suf, f')
      | Inl e \<Rightarrow> if e = PathError EEXIST then mkdirTempLoop E pre suf rs f else Inl e)"

definition os_MkdirTemp :: "env \<Rightarrow> string \<Rightarrow> fs \<Rightarrow> error + (string \<times> fs)" where
  "os_MkdirTemp E pattern f =
     (if CHR ''/'' \<in> set pattern then Inl (External ''pattern contains path separator'')
      else (case prefixAndSuffix pattern of
              (pre, suf) \<Rightarrow> mkdirTempLoop E (joinPath (tempDirRoot E) pre) suf (randomNames E) f))"

section \<open>The installer (plugins.go)\<close>

text \<open>
  A Go function that returns \<^verbatim>\<open>error\<close> and writes to the file system is a function to
  \<open>error option \<times> fs\<close>: the error (\<open>None\<close> is \<^verbatim>\<open>nil\<close>) and the file system it leaves,
  also when it fails.
\<close>

type_synonym outcome = "error option \<times> fs"

text \<open>\<^verbatim>\<open>filepath.Abs\<close>\<close>

definition Abs :: "env \<Rightarrow> string \<Rightarrow> error + string" where
  "Abs E p =
     (if IsAbs p then Inr (Clean p)
      else (case getwd E of Inl e \<Rightarrow> Inl e | Inr wd \<Rightarrow> Inr (Join [wd, p])))"

definition getPluginsDir :: "env \<Rightarrow> fs \<Rightarrow> error + (string \<times> fs)" where
  "getPluginsDir E f =
     (case userHomeDir E of
        Inl e \<Rightarrow> Inl (Wrapf ''failed to get user home directory'' e)
      | Inr homeDir \<Rightarrow>
          let pluginsDir = Join [homeDir, ''.ssot'', ''gitspace'', ''plugins'']
          in (case os_MkdirAll E pluginsDir 493 f of
                Inl e \<Rightarrow> Inl (Wrapf ''failed to create plugins directory'' e)
              | Inr f' \<Rightarrow> Inr (pluginsDir, f')))"

definition loadPluginManifest :: "env \<Rightarrow> string \<Rightarrow> fs \<Rightarrow> error + PluginManifest" where
  "loadPluginManifest E path f =
     (case os_ReadFile E path f of
        Inl e \<Rightarrow> Inl (Wrapf ''failed to read manifest file'' e)
      | Inr data \<Rightarrow>
          (case tomlUnmarshal E data of
             Inl e \<Rightarrow> Inl (Wrapf ''failed to decode manifest'' e)
           | Inr manifest \<Rightarrow> Inr manifest))"

text \<open>\<^verbatim>\<open>copyFile\<close>: 493 is 0755 and 420 is 0644.\<close>

definition copyFile :: "env \<Rightarrow> string \<Rightarrow> string \<Rightarrow> fs \<Rightarrow> outcome" where
  "copyFile E src dst f =
     (case os_MkdirAll E (Dir_of dst) 493 f of
        Inl e \<Rightarrow> (Some (Wrapf ''failed to create destination directory'' e), f)
      | Inr f1 \<Rightarrow>
          (case os_ReadFile E src f1 of
             Inl e \<Rightarrow> (Some (Wrapf ''failed to read source file'' e), f1)
           | Inr input \<Rightarrow>
               (case os_WriteFile E dst input 420 f1 of
                  Inl e \<Rightarrow> (Some (Wrapf ''failed to write destination file'' e), f1)
                | Inr f2 \<Rightarrow> (None, f2))))"

text \<open>
  \<^verbatim>\<open>downloadFile\<close>: \<^verbatim>\<open>os.Create\<close> (permission bits 0666, that is 438) and \<^verbatim>\<open>io.Copy\<close>
  of the body; \<open>Body\<close> is what arrived, \<open>BodyError\<close> the error of the copy, if any.
\<close>

definition downloadFile :: "env \<Rightarrow> string \<Rightarrow> string \<Rightarrow> fs \<Rightarrow> outcome" where
  "downloadFile E url filepath f =
     (case httpGet E url of
        Inl e \<Rightarrow> (Some e, f)
      | Inr resp \<Rightarrow>
          if StatusCode resp \<noteq> 200 then (Some (Errorf (''bad status: '' @ Status resp)), f)
          else (case os_WriteFile E filepath (Body resp) 438 f of
                  Inl e \<Rightarrow> (Some e, f)
                | Inr f1 \<Rightarrow> (BodyError resp, f1)))"

definition gitClone :: "env \<Rightarrow> string \<Rightarrow> string \<Rightarrow> fs \<Rightarrow> outcome" where
  "gitClone E url destPath f =
     (case gitCloneCommand E url destPath f of
        (Some (err, output), f') \<Rightarrow> (Some (WrapOutf ''git clone failed'' err output), f')
      | (None, f') \<Rightarrow> (None, f'))"

text \<open>The loop over the manifest's sources of \<^verbatim>\<open>installPlugin\<close> (lines 149 to 157).\<close>

fun copySources :: "env \<Rightarrow> string \<Rightarrow> string \<Rightarrow> Source list \<Rightarrow> fs \<Rightarrow> outcome" where
  "copySources E sourceDir pluginDir [] f = (None, f)"
| "copySources E sourceDir pluginDir (s # ss) f =
     (case copyFile E (Join [sourceDir, Path s]) (Join [pluginDir, Path s]) f of
        (Some e, f') \<Rightarrow> (Some (Wrapf (''failed to copy plugin file '' @ Path s) e), f')
      | (None, f') \<Rightarrow> copySources E sourceDir pluginDir ss f')"

text \<open>
  Lines 126 to 157 of \<^verbatim>\<open>installPlugin\<close>: remove the plugin's directory, create it again,
  copy the manifest and the sources.
\<close>

definition installCopy :: "env \<Rightarrow> string \<Rightarrow> string \<Rightarrow> string \<Rightarrow> PluginManifest \<Rightarrow> fs \<Rightarrow> outcome" where
  "installCopy E pluginsDir manifestPath sourceDir manifest f =
     (let pluginDir = Join [pluginsDir, Name manifest]
      in (case os_RemoveAll E pluginDir f of
            Inl e \<Rightarrow> (Some (Wrapf ''failed to remove existing plugin directory'' e), f)
          | Inr f1 \<Rightarrow>
              (case os_MkdirAll E pluginDir 493 f1 of
                 Inl e \<Rightarrow> (Some (Wrapf ''failed to create plugin directory'' e), f1)
               | Inr f2 \<Rightarrow>
                   (case copyFile E manifestPath (Join [pluginDir, ''gitspace-plugin.toml'']) f2 of
                      (Some e, f3) \<Rightarrow> (Some (Wrapf ''failed to copy manifest file'' e), f3)
                    | (None, f3) \<Rightarrow> copySources E sourceDir pluginDir (Sources manifest) f3))))"

text \<open>
  Lines 159 to 185: \<^verbatim>\<open>go mod init\<close> when \<^verbatim>\<open>os.Stat\<close> of go.mod answers an error that
  \<^verbatim>\<open>os.IsNotExist\<close> accepts, then \<^verbatim>\<open>go mod edit -go\<close> and \<^verbatim>\<open>go mod tidy\<close>.
\<close>

definition IsNotExist :: "error + node \<Rightarrow> bool" where
  "IsNotExist r = (r = Inl (PathError ENOENT))"

definition runGo :: "env \<Rightarrow> string \<Rightarrow> string list \<Rightarrow> string \<Rightarrow> fs \<Rightarrow> outcome" where
  "runGo E msg args dir f =
     (case goCommand E args dir f of
        (Some (err, output), f') \<Rightarrow> (Some (WrapOutf msg err output), f')
      | (None, f') \<Rightarrow> (None, f'))"

definition installGoMod :: "env \<Rightarrow> string \<Rightarrow> string \<Rightarrow> fs \<Rightarrow> outcome" where
  "installGoMod E pluginDir name f =
     (case (if IsNotExist (os_Stat E (Join [pluginDir, ''go.mod'']) f)
            then runGo E ''failed to initialize go.mod''
                   [''mod'', ''init'', ''github.com/ssotops/gitspace/plugins/'' @ name] pluginDir f
            else (None, f)) of
        (Some e, f1) \<Rightarrow> (Some e, f1)
      | (None, f1) \<Rightarrow>
          (case runGo E ''failed to update go.mod version''
                  [''mod'', ''edit'', ''-go'', TrimPrefix (runtimeVersion E) ''go''] pluginDir f1 of
             (Some e, f2) \<Rightarrow> (Some e, f2)
           | (None, f2) \<Rightarrow> runGo E ''failed to tidy go.mod'' [''mod'', ''tidy''] pluginDir f2))"

text \<open>Lines 119 to 189: what \<^verbatim>\<open>installPlugin\<close> does once the manifest's path is known.\<close>

definition installStaged :: "env \<Rightarrow> string \<Rightarrow> string \<Rightarrow> string \<Rightarrow> fs \<Rightarrow> outcome" where
  "installStaged E pluginsDir manifestPath sourceDir f =
     (case loadPluginManifest E manifestPath f of
        Inl e \<Rightarrow> (Some (Wrapf ''failed to load manifest'' e), f)
      | Inr manifest \<Rightarrow>
          (case installCopy E pluginsDir manifestPath sourceDir manifest f of
             (Some e, f') \<Rightarrow> (Some e, f')
           | (None, f') \<Rightarrow>
               installGoMod E (Join [pluginsDir, Name manifest]) (Name manifest) f'))"

text \<open>\<^verbatim>\<open>defer os.RemoveAll(dir)\<close>: runs when the function returns; its error is dropped.\<close>

definition deferRemoveAll :: "env \<Rightarrow> string \<Rightarrow> outcome \<Rightarrow> outcome" where
  "deferRemoveAll E dir r =
     (case r of (e, f) \<Rightarrow> (e, case os_RemoveAll E dir f of Inl x \<Rightarrow> f | Inr f' \<Rightarrow> f'))"

text \<open>Lines 80 to 94 and 119 to 189: the remote branch.\<close>

definition installRemote :: "env \<Rightarrow> string \<Rightarrow> string \<Rightarrow> fs \<Rightarrow> outcome" where
  "installRemote E pluginsDir source f =
     (case os_MkdirTemp E ''gitspace-plugin-*'' f of
        Inl e \<Rightarrow> (Some (Wrapf ''failed to create temporary directory'' e), f)
      | Inr (tempDir, f1) \<Rightarrow>
          deferRemoveAll E tempDir
            (case gitClone E source tempDir f1 of
               (Some e, f2) \<Rightarrow> (Some (Wrapf ''failed to clone remote repository'' e), f2)
             | (None, f2) \<Rightarrow>
                 installStaged E pluginsDir (Join [tempDir, ''gitspace-plugin.toml'']) tempDir f2))"

text \<open>Lines 96 to 117 and 119 to 189: the local branch.\<close>

definition installLocal :: "env \<Rightarrow> string \<Rightarrow> string \<Rightarrow> fs \<Rightarrow> outcome" where
  "installLocal E pluginsDir source f =
     (case Abs E source of
        Inl e \<Rightarrow> (Some (Wrapf ''failed to get absolute path of source'' e), f)
      | Inr absSource \<Rightarrow>
          (case os_Stat E absSource f of
             Inl e \<Rightarrow> (Some (Wrapf ''failed to get source info'' e), f)
           | Inr (Dir m) \<Rightarrow>
               installStaged E pluginsDir (Join [absSource, ''gitspace-plugin.toml'']) absSource f
           | Inr (File m c) \<Rightarrow>
               if Ext absSource = ''.toml''
               then installStaged E pluginsDir absSource (Dir_of absSource) f
               else (Some (Errorf ''invalid source: must be a directory or .toml file''), f)))"

text \<open>The loop over the manifest's sources of \<^verbatim>\<open>installFromGitspaceCatalog\<close> (lines 234 to 241).\<close>

fun downloadSources :: "env \<Rightarrow> string \<Rightarrow> string \<Rightarrow> Source list \<Rightarrow> fs \<Rightarrow> outcome" where
  "downloadSources E rawGitHubURL tempDir [] f = (None, f)"
| "downloadSources E rawGitHubURL tempDir (s # ss) f =
     (case downloadFile E (rawGitHubURL @ ''/'' @ Path s) (Join [tempDir, Path s]) f of
        (Some e, f') \<Rightarrow> (Some (Wrapf (''failed to download source file '' @ Path s) e), f')
      | (None, f') \<Rightarrow> downloadSources E rawGitHubURL tempDir ss f')"

text \<open>
  \<^verbatim>\<open>installPlugin\<close> and \<^verbatim>\<open>installFromGitspaceCatalog\<close> call each other: the catalog
  branch of the first calls the second, which ends by calling the first on its temporary
  directory. The first argument bounds the depth of these calls; \<open>None\<close> means that the
  bound was reached.
\<close>

fun installPlugin :: "nat \<Rightarrow> env \<Rightarrow> string \<Rightarrow> fs \<Rightarrow> outcome option"
  and installFromGitspaceCatalog :: "nat \<Rightarrow> env \<Rightarrow> string \<Rightarrow> fs \<Rightarrow> outcome option" where
  "installPlugin 0 E source f = None"
| "installPlugin (Suc n) E source f =
     (case getPluginsDir E f of
        Inl e \<Rightarrow> Some (Some (Wrapf ''failed to get plugins directory'' e), f)
      | Inr (pluginsDir, f0) \<Rightarrow>
          if HasPrefix source ''catalog://''
          then installFromGitspaceCatalog n E (TrimPrefix source ''catalog://'') f0
          else if HasPrefix source ''http://'' \<or> HasPrefix source ''https://''
          then Some (installRemote E pluginsDir source f0)
          else Some (installLocal E pluginsDir source f0))"
| "installFromGitspaceCatalog 0 E catalogItem f = None"
| "installFromGitspaceCatalog (Suc n) E catalogItem f =
     (case fetchGitspaceCatalog E ''ssotops'' ''gitspace-catalog'' of
        Inl e \<Rightarrow> Some (Some (Wrapf ''failed to fetch Gitspace Catalog'' e), f)
      | Inr catalog \<Rightarrow>
          (case Plugins catalog catalogItem of
             None \<Rightarrow>
               Some (Some (Errorf (''plugin '' @ catalogItem @ '' not found in Gitspace Catalog'')), f)
           | Some plugin \<Rightarrow>
               if CPath plugin = []
               then Some (Some (Errorf (''no path found for plugin '' @ catalogItem
                                          @ '' in Gitspace Catalog'')), f)
               else
                 (case os_MkdirTemp E ''gitspace-plugin-*'' f of
                    Inl e \<Rightarrow> Some (Some (Wrapf ''failed to create temporary directory'' e), f)
                  | Inr (tempDir, f1) \<Rightarrow>
                      map_option (deferRemoveAll E tempDir)
                        (case downloadFile E
                                (''https://raw.githubusercontent.com/ssotops/gitspace-catalog/master/''
                                   @ CPath plugin @ ''/gitspace-plugin.toml'')
                                (Join [tempDir, ''gitspace-plugin.toml'']) f1 of
                           (Some e, f2) \<Rightarrow>
                             Some (Some (Wrapf ''failed to download gitspace-plugin.toml'' e), f2)
                         | (None, f2) \<Rightarrow>
                             (case loadPluginManifest E (Join [tempDir, ''gitspace-plugin.toml'']) f2 of
                                Inl e \<Rightarrow> Some (Some (Wrapf ''failed to load plugin manifest'' e), f2)
                              | Inr pluginManifest \<Rightarrow>
                                  (case downloadSources E
                                          (''https://raw.githubusercontent.com/ssotops/gitspace-catalog/master/''
                                             @ CPath plugin)
                                          tempDir (Sources pluginManifest) f2 of
                                     (Some e, f3) \<Rightarrow> Some (Some e, f3)
                                   | (None, f3) \<Rightarrow> installPlugin n E tempDir f3))))))"

section \<open>Predicates used in the statements\<close>

text \<open>
  A file system is well formed when every node but the root lies in a directory.
\<close>

definition wf_fs :: "fs \<Rightarrow> bool" where
  "wf_fs f = (\<forall>k. f k \<noteq> None \<longrightarrow> k \<noteq> [] \<longrightarrow> isDirAt f (butlast k))"

text \<open>
  The external tools write only below the directory they are given: \<^verbatim>\<open>go\<close> below its
  working directory, \<^verbatim>\<open>git clone\<close> below its destination.
\<close>

definition goConfined :: "env \<Rightarrow> bool" where
  "goConfined E =
     (\<forall>args dir f d k. keyOf E dir = Some d \<longrightarrow> \<not> prefix d k \<longrightarrow>
        snd (goCommand E args dir f) k = f k)"

definition gitConfined :: "env \<Rightarrow> bool" where
  "gitConfined E =
     (\<forall>url dest f d k. keyOf E dest = Some d \<longrightarrow> \<not> prefix d k \<longrightarrow>
        snd (gitCloneCommand E url dest f) k = f k)"

text \<open>A path element that names a directory entry: not empty, not a dot, not two dots, no slash.\<close>

definition simpleName :: "string \<Rightarrow> bool" where
  "simpleName x = (x \<noteq> [] \<and> x \<noteq> ''.'' \<and> x \<noteq> ''..'' \<and> CHR ''/'' \<notin> set x)"





section \<open>Example worlds\<close>

definition noRepo :: Repository where
  "noRepo = \<lparr>Type = [], URL = [], Branch = []\<rparr>"

definition helloManifest :: PluginManifest where
  "helloManifest = \<lparr>Name = ''hello'', Version = ''1'', Description = [], Author = [],
     Sources = [\<lparr>Path = ''main.go'', EntryPoint = ''main'', Repo = noRepo\<rparr>]\<rparr>"

definition evilManifest :: PluginManifest where
  "evilManifest = \<lparr>Name = ''evil'', Version = ''1'', Description = [], Author = [],
     Sources = [\<lparr>Path = ''../../etc/passwd'', EntryPoint = ''main'', Repo = noRepo\<rparr>]\<rparr>"

definition emptyManifest :: PluginManifest where
  "emptyManifest = \<lparr>Name = ''empty'', Version = ''1'', Description = [], Author = [],
     Sources = []\<rparr>"

definition noEntryManifest :: PluginManifest where
  "noEntryManifest = \<lparr>Name = ''noentry'', Version = ''1'', Description = [], Author = [],
     Sources = [\<lparr>Path = ''main.go'', EntryPoint = [], Repo = noRepo\<rparr>]\<rparr>"

text \<open>
  A manifest whose second source path climbs three levels out of the plugin's directory.
\<close>

definition climbingManifest :: PluginManifest where
  "climbingManifest = \<lparr>Name = ''p'', Version = ''1'', Description = [], Author = [],
     Sources = [\<lparr>Path = ''b'', EntryPoint = ''main'', Repo = noRepo\<rparr>,
                \<lparr>Path = ''../../../b'', EntryPoint = ''main'', Repo = noRepo\<rparr>]\<rparr>"

text \<open>A decoder that knows five documents.\<close>

definition exDecode :: "string \<Rightarrow> error + PluginManifest" where
  "exDecode data =
     (if data = ''M'' then Inr helloManifest
      else if data = ''E'' then Inr evilManifest
      else if data = ''N'' then Inr emptyManifest
      else if data = ''P'' then Inr noEntryManifest
      else if data = ''C'' then Inr climbingManifest
      else Inl (External ''toml: invalid document''))"

text \<open>
  A \<^verbatim>\<open>go\<close> tool whose \<^verbatim>\<open>mod init\<close> writes go.mod into its working directory and
  whose other commands change nothing.
\<close>

definition exGo :: "string list \<Rightarrow> string \<Rightarrow> fs \<Rightarrow> (error \<times> string) option \<times> fs" where
  "exGo args dir f =
     (if take 2 args = [''mod'', ''init''] \<and> IsAbs dir
      then (None, f(absKey dir @ [''go.mod''] \<mapsto> File 438 ''module''))
      else (None, f))"

definition exCatalog :: GitspaceCatalog where
  "exCatalog = \<lparr>Plugins = [''hello'' \<mapsto> \<lparr>CPath = ''plugins/hello'', CVersion = ''1'', CDescription = []\<rparr>]\<rparr>"

definition exHttp :: "string \<Rightarrow> error + http_response" where
  "exHttp url =
     (if url = ''https://raw.githubusercontent.com/ssotops/gitspace-catalog/master/plugins/hello/gitspace-plugin.toml''
      then Inr \<lparr>StatusCode = 200, Status = ''200 OK'', Body = ''M'', BodyError = None\<rparr>
      else Inr \<lparr>StatusCode = 404, Status = ''404 Not Found'', Body = [], BodyError = None\<rparr>)"

definition exEnv :: env where
  "exEnv = \<lparr>userHomeDir = Inr ''/h'', getwd = Inr ''/w'', tempDirRoot = ''/tmp'',
     randomNames = [''1''], runtimeVersion = ''go1.21'',
     tomlUnmarshal = exDecode,
     httpGet = exHttp,
     fetchGitspaceCatalog = (\<lambda>owner repo. Inr exCatalog),
     goCommand = exGo,
     gitCloneCommand = (\<lambda>url dest f. (Some (External ''exit status 128'', ''fatal''), f))\<rparr>"

text \<open>The same world with a decoder that knows the document of the plugin hello only.\<close>

definition helloEnv :: env where
  "helloEnv = exEnv\<lparr>tomlUnmarshal :=
     (\<lambda>data. if data = ''M'' then Inr helloManifest else Inl (External ''toml: invalid document''))\<rparr>"

text \<open>A staged plugin in /src whose entry point is executable (493 is 0755).\<close>

definition exFs :: fs where
  "exFs = [[] \<mapsto> Dir 493, [''tmp''] \<mapsto> Dir 493, [''src''] \<mapsto> Dir 493,
           [''src'', ''gitspace-plugin.toml''] \<mapsto> File 420 ''M'',
           [''src'', ''main.go''] \<mapsto> File 493 ''package main'']"

definition evilFs :: fs where
  "evilFs = [[] \<mapsto> Dir 493, [''etc''] \<mapsto> Dir 493, [''etc'', ''passwd''] \<mapsto> File 420 ''root'',
             [''src''] \<mapsto> Dir 493, [''src'', ''gitspace-plugin.toml''] \<mapsto> File 420 ''E'']"

definition emptyFs :: fs where
  "emptyFs = [[] \<mapsto> Dir 493, [''src''] \<mapsto> Dir 493,
              [''src'', ''gitspace-plugin.toml''] \<mapsto> File 420 ''N'']"

definition noEntryFs :: fs where
  "noEntryFs = [[] \<mapsto> Dir 493, [''src''] \<mapsto> Dir 493,
                [''src'', ''gitspace-plugin.toml''] \<mapsto> File 420 ''P'',
                [''src'', ''main.go''] \<mapsto> File 420 ''package main'']"

text \<open>
  The climbing manifest staged in /h/.ssot, with a file b there and another file b at the
  root.
\<close>

definition climbingFs :: fs where
  "climbingFs = [[] \<mapsto> Dir 493, [''b''] \<mapsto> File 420 ''Y'',
                 [''h''] \<mapsto> Dir 493, [''h'', ''.ssot''] \<mapsto> Dir 493,
                 [''h'', ''.ssot'', ''gitspace-plugin.toml''] \<mapsto> File 420 ''C'',
                 [''h'', ''.ssot'', ''b''] \<mapsto> File 420 ''X'']"

text \<open>A staged plugin whose declared source main.go is missing.\<close>

definition missingFs :: fs where
  "missingFs = [[] \<mapsto> Dir 493, [''src''] \<mapsto> Dir 493,
                [''src'', ''gitspace-plugin.toml''] \<mapsto> File 420 ''M'']"

text \<open>
  A staged manifest that does not decode, beside an installed plugin hello.
\<close>

definition brokenFs :: fs where
  "brokenFs = [[] \<mapsto> Dir 493, [''src''] \<mapsto> Dir 493,
               [''src'', ''gitspace-plugin.toml''] \<mapsto> File 420 ''X'',
               [''h''] \<mapsto> Dir 493, [''h'', ''.ssot''] \<mapsto> Dir 493,
               [''h'', ''.ssot'', ''gitspace''] \<mapsto> Dir 493,
               [''h'', ''.ssot'', ''gitspace'', ''plugins''] \<mapsto> Dir 493,
               [''h'', ''.ssot'', ''gitspace'', ''plugins'', ''hello''] \<mapsto> Dir 493,
               [''h'', ''.ssot'', ''gitspace'', ''plugins'', ''hello'', ''gitspace-plugin.toml'']
                 \<mapsto> File 420 ''M'']"

section \<open>Lemmas about paths\<close>

lemma splitSlashAcc_append:
  "splitSlashAcc cur (a @ CHR ''/'' # b) = splitSlashAcc cur a @ splitSlashAcc [] b"
  by (induction a arbitrary: cur) auto

lemma splitSlashAcc_noslash:
  "CHR ''/'' \<notin> set x \<Longrightarrow> splitSlashAcc cur x = [rev cur @ x]"
  by (induction x arbitrary: cur) auto

lemma splitSlashAcc_elems:
  "e \<in> set (splitSlashAcc cur p) \<Longrightarrow> CHR ''/'' \<notin> set cur \<Longrightarrow> CHR ''/'' \<notin> set e"
proof (induction p arbitrary: cur)
  case Nil then show ?case by auto
next
  case (Cons c p)
  show ?case
  proof (cases "c = CHR ''/''")
    case True
    with Cons.prems have "e = rev cur \<or> e \<in> set (splitSlashAcc [] p)" by auto
    then show ?thesis using Cons.IH [of "[]"] Cons.prems(2) by auto
  next
    case False
    with Cons.prems have "e \<in> set (splitSlashAcc (c # cur) p)" by auto
    then show ?thesis using Cons.IH [of "c # cur"] Cons.prems(2) False by auto
  qed
qed

lemma splitSlash_elems: "e \<in> set (splitSlash p) \<Longrightarrow> CHR ''/'' \<notin> set e"
  unfolding splitSlash_def by (erule splitSlashAcc_elems) simp

lemma splitSlash_append:
  "splitSlash (a @ CHR ''/'' # b) = splitSlash a @ splitSlash b"
  by (simp add: splitSlash_def splitSlashAcc_append)

lemma splitSlash_noslash: "CHR ''/'' \<notin> set x \<Longrightarrow> splitSlash x = [x]"
  by (simp add: splitSlash_def splitSlashAcc_noslash)

lemma splitSlash_joinSlash:
  "es \<noteq> [] \<Longrightarrow> \<forall>e\<in>set es. CHR ''/'' \<notin> set e \<Longrightarrow> splitSlash (joinSlash es) = es"
proof (induction es rule: joinSlash.induct)
  case 1 then show ?case by simp
next
  case (2 e) then show ?case by (simp add: splitSlash_noslash)
next
  case (3 e v va)
  then show ?case by (simp add: splitSlash_append splitSlash_noslash)
qed

lemma cleanElems_skip:
  "e = [] \<or> e = ''.'' \<Longrightarrow> cleanElems r out (e # es) = cleanElems r out es"
  by auto

lemma cleanElems_push:
  "e \<noteq> [] \<Longrightarrow> e \<noteq> ''.'' \<Longrightarrow> e \<noteq> ''..'' \<Longrightarrow> cleanElems r out (e # es) = cleanElems r (e # out) es"
  by simp

lemma cleanElems_pop:
  "out \<noteq> [] \<Longrightarrow> hd out \<noteq> ''..'' \<Longrightarrow> cleanElems r out (''..'' # es) = cleanElems r (tl out) es"
  by simp

lemma cleanElems_root:
  "out = [] \<or> hd out = ''..'' \<Longrightarrow> cleanElems True out (''..'' # es) = cleanElems True out es"
  by auto

lemma cleanElems_keep:
  "out = [] \<or> hd out = ''..'' \<Longrightarrow>
     cleanElems False out (''..'' # es) = cleanElems False (''..'' # out) es"
  by auto

lemma cleanElems_cases:
  obtains "e = [] \<or> e = ''.''" | "e = ''..''" | "e \<noteq> []" "e \<noteq> ''.''" "e \<noteq> ''..''"
  by blast

lemma cleanElems_append:
  "cleanElems r out (xs @ ys) = cleanElems r (rev (cleanElems r out xs)) ys"
proof (induction xs arbitrary: out)
  case Nil show ?case by simp
next
  case (Cons x xs)
  show ?case
  proof (cases rule: cleanElems_cases [of x])
    case 1 then show ?thesis using Cons.IH [of out]
      by (simp only: append_Cons cleanElems_skip)
  next
    case 2
    consider (a) "out \<noteq> []" "hd out \<noteq> ''..''"
      | (b) "out = [] \<or> hd out = ''..''" "r"
      | (c) "out = [] \<or> hd out = ''..''" "\<not> r" by blast
    then show ?thesis
    proof cases
      case a
      note p = cleanElems_pop [OF a, of r]
      show ?thesis unfolding 2 append_Cons p by (rule Cons.IH)
    next
      case b
      then have r: "r = True" by simp
      note p = cleanElems_root [OF b(1)]
      from Cons.IH [of out] show ?thesis unfolding 2 append_Cons r p .
    next
      case c
      then have r: "r = False" by simp
      note p = cleanElems_keep [OF c(1)]
      from Cons.IH [of "''..'' # out"] show ?thesis unfolding 2 append_Cons r p .
    qed
  next
    case 3
    note p = cleanElems_push [OF 3, of r]
    show ?thesis unfolding append_Cons p by (rule Cons.IH)
  qed
qed

lemma cleanElems_simple:
  "\<forall>e\<in>set es. simpleName e \<Longrightarrow> cleanElems r out es = rev out @ es"
proof (induction es arbitrary: out)
  case Nil show ?case by simp
next
  case (Cons x xs)
  then have x: "x \<noteq> []" "x \<noteq> ''.''" "x \<noteq> ''..''" and xs: "\<forall>e\<in>set xs. simpleName e"
    by (simp_all add: simpleName_def)
  show ?case unfolding cleanElems_push [OF x] Cons.IH [OF xs] by simp
qed

lemma cleanElems_rooted_simple:
  "\<forall>e\<in>set out. simpleName e \<Longrightarrow> \<forall>e\<in>set xs. CHR ''/'' \<notin> set e \<Longrightarrow>
     \<forall>e\<in>set (cleanElems True out xs). simpleName e"
proof (induction xs arbitrary: out)
  case Nil then show ?case by simp
next
  case (Cons x xs)
  have tl: "\<forall>e\<in>set (tl out). simpleName e" using Cons.prems(1) by (cases out) auto
  have xs: "\<forall>e\<in>set xs. CHR ''/'' \<notin> set e" using Cons.prems(2) by simp
  show ?case
  proof (cases rule: cleanElems_cases [of x])
    case 1 then show ?thesis using Cons.IH [OF Cons.prems(1) xs]
      by (simp only: cleanElems_skip)
  next
    case 2
    show ?thesis
    proof (cases "out \<noteq> [] \<and> hd out \<noteq> ''..''")
      case True
      then have a: "out \<noteq> []" "hd out \<noteq> ''..''" by simp_all
      show ?thesis unfolding 2 cleanElems_pop [OF a] by (rule Cons.IH [OF tl xs])
    next
      case False
      then have b: "out = [] \<or> hd out = ''..''" by simp
      show ?thesis unfolding 2 cleanElems_root [OF b] by (rule Cons.IH [OF Cons.prems(1) xs])
    qed
  next
    case 3
    then have "\<forall>e\<in>set (x # out). simpleName e" using Cons.prems by (simp add: simpleName_def)
    from Cons.IH [OF this xs] show ?thesis unfolding cleanElems_push [OF 3] .
  qed
qed

lemma absKey_simple: "\<forall>e\<in>set (absKey p). simpleName e"
  unfolding absKey_def
  by (rule cleanElems_rooted_simple) (auto dest: splitSlash_elems)

lemma keyOf_abs: "IsAbs p \<Longrightarrow> keyOf E p = Some (absKey p)"
  by (auto simp: keyOf_def IsAbs_def absKey_def)

lemma Clean_abs: "IsAbs q \<Longrightarrow> Clean q = CHR ''/'' # joinSlash (absKey q)"
  by (auto simp: Clean_def IsAbs_def absKey_def Let_def)

lemma absKey_root_join:
  assumes "\<forall>e\<in>set es. simpleName e"
  shows "absKey (CHR ''/'' # joinSlash es) = es"
proof (cases "es = []")
  case True then show ?thesis by (simp add: absKey_def splitSlash_def)
next
  case False
  have "splitSlash (CHR ''/'' # joinSlash es) = [] # es"
    using splitSlash_append [of "[]" "joinSlash es"] splitSlash_joinSlash [OF False] assms
    by (simp add: simpleName_def splitSlash_def)
  then show ?thesis using assms by (simp add: absKey_def cleanElems_simple)
qed

lemma absKey_Clean: "IsAbs q \<Longrightarrow> absKey (Clean q) = absKey q"
  by (simp add: Clean_abs absKey_root_join absKey_simple)

lemma IsAbs_Clean: "IsAbs q \<Longrightarrow> IsAbs (Clean q)"
  by (simp add: Clean_abs IsAbs_def)

lemma Join2: "D \<noteq> [] \<Longrightarrow> Join [D, p] = Clean (D @ CHR ''/'' # p)"
  by (simp add: Join_def)

lemma IsAbs_Join: "IsAbs D \<Longrightarrow> IsAbs (Join [D, p])"
proof -
  assume a: "IsAbs D"
  then have "D \<noteq> []" by (auto simp: IsAbs_def)
  then have "Join [D, p] = Clean (D @ CHR ''/'' # p)" by (rule Join2)
  moreover have "IsAbs (D @ CHR ''/'' # p)" using a by (auto simp: IsAbs_def)
  ultimately show ?thesis by (simp add: IsAbs_Clean)
qed

lemma absKey_Join:
  "IsAbs D \<Longrightarrow> absKey (Join [D, p]) = cleanElems True (rev (absKey D)) (splitSlash p)"
proof -
  assume a: "IsAbs D"
  then have "D \<noteq> []" by (auto simp: IsAbs_def)
  then have "Join [D, p] = Clean (D @ CHR ''/'' # p)" by (rule Join2)
  moreover have "IsAbs (D @ CHR ''/'' # p)" using a by (auto simp: IsAbs_def)
  ultimately have "absKey (Join [D, p]) = absKey (D @ CHR ''/'' # p)" by (simp add: absKey_Clean)
  then show ?thesis by (simp add: absKey_def splitSlash_append cleanElems_append)
qed

lemma absKey_Join_simple:
  "IsAbs D \<Longrightarrow> simpleName x \<Longrightarrow> absKey (Join [D, x]) = absKey D @ [x]"
  by (simp add: absKey_Join splitSlash_noslash simpleName_def)

lemma joinSlash_snoc:
  "joinSlash (es @ [e]) = (if es = [] then e else joinSlash es @ CHR ''/'' # e)"
  by (induction es rule: joinSlash.induct) auto

lemma Dir_of_clean_abs:
  assumes "IsAbs q"
  shows "absKey (Dir_of (Clean q)) = butlast (absKey q) \<and> IsAbs (Dir_of (Clean q))"
proof (cases "absKey q" rule: rev_cases)
  case Nil
  then have "Clean q = ''/''" using assms by (simp add: Clean_abs)
  then show ?thesis using Nil
    by (simp add: Dir_of_def Clean_def IsAbs_def splitSlash_def absKey_def)
next
  case (snoc es e)
  have simp_all: "\<forall>x\<in>set (es @ [e]). simpleName x" using absKey_simple [of q] snoc by simp
  then have e: "CHR ''/'' \<notin> set e" and es: "\<forall>x\<in>set es. simpleName x" by (auto simp: simpleName_def)
  define pre where "pre = (if es = [] then ''/'' else CHR ''/'' # joinSlash es @ ''/'')"
  have cq: "Clean q = pre @ e"
    using assms snoc by (simp add: Clean_abs joinSlash_snoc pre_def)
  have "rev (Clean q) = rev e @ rev pre" by (simp add: cq)
  moreover have "rev pre \<noteq> [] \<and> hd (rev pre) = CHR ''/''" by (auto simp: pre_def)
  ultimately have "dropWhile (\<lambda>c. c \<noteq> CHR ''/'') (rev (Clean q)) = rev pre"
    using e by (cases "rev pre") (auto simp: dropWhile_append)
  then have d: "Dir_of (Clean q) = Clean pre" by (simp add: Dir_of_def)
  have ap: "IsAbs pre" by (simp add: pre_def IsAbs_def)
  have "absKey pre = es"
  proof (cases "es = []")
    case True then show ?thesis by (simp add: pre_def absKey_def splitSlash_def)
  next
    case False
    have "splitSlash pre = [] # es @ [[]]"
      using False splitSlash_append [of "[]" "joinSlash es @ ''/''"]
        splitSlash_append [of "joinSlash es" "[]"] splitSlash_joinSlash [OF False] es
      by (simp add: pre_def simpleName_def splitSlash_def)
    then show ?thesis using es
      by (simp add: absKey_def cleanElems_append cleanElems_simple)
  qed
  then show ?thesis using ap snoc by (simp add: d absKey_Clean IsAbs_Clean)
qed

section \<open>Lemmas about the file system operations\<close>

lemma fileAbove_iff: "fileAbove f k \<longleftrightarrow> (\<exists>j<length k. isFileAt f (take j k))"
  by (auto simp: fileAbove_def list_ex_iff)

lemma isFileAt_simps:
  "isFileAt f k \<longleftrightarrow> (\<exists>m c. f k = Some (File m c))"
  by (auto simp: isFileAt_def split: option.splits node.splits)

lemma isDirAt_simps:
  "isDirAt f k \<longleftrightarrow> (\<exists>m. f k = Some (Dir m))"
  by (auto simp: isDirAt_def split: option.splits node.splits)

lemma MkdirAll_Inr:
  assumes "os_MkdirAll E p perm f = Inr f'"
  obtains k where "keyOf E p = Some k" "\<not> fileAbove f k" "\<not> isFileAt f k"
    "f' = (\<lambda>q. if prefix q k \<and> f q = None then Some (Dir perm) else f q)"
proof -
  from assms obtain k where k: "keyOf E p = Some k" "\<not> fileAbove f k" "\<not> isFileAt f k"
    and f': "f' = (\<lambda>q. case f q of None \<Rightarrow> if prefix q k then Some (Dir perm) else None
                          | Some n \<Rightarrow> Some n)"
    by (auto simp: os_MkdirAll_def split: option.splits if_splits)
  have "f' = (\<lambda>q. if prefix q k \<and> f q = None then Some (Dir perm) else f q)"
    unfolding f' by (rule ext) (simp split: option.splits)
  with k show thesis using that by blast
qed

lemma MkdirAll_keeps: "os_MkdirAll E p perm f = Inr f' \<Longrightarrow> f q \<noteq> None \<Longrightarrow> f' q = f q"
  by (erule MkdirAll_Inr) auto

lemma MkdirAll_isFileAt: "os_MkdirAll E p perm f = Inr f' \<Longrightarrow> isFileAt f' q = isFileAt f q"
  by (erule MkdirAll_Inr) (auto simp: isFileAt_def)

lemma MkdirAll_changes:
  "os_MkdirAll E p perm f = Inr f' \<Longrightarrow> keyOf E p = Some k \<Longrightarrow> f' q \<noteq> f q \<Longrightarrow>
     prefix q k \<and> f q = None \<and> f' q = Some (Dir perm)"
  by (erule MkdirAll_Inr) (auto split: if_splits)

lemma MkdirAll_dirs:
  assumes "os_MkdirAll E p perm f = Inr f'" "keyOf E p = Some k" "prefix q k"
  shows "isDirAt f' q"
proof -
  from assms(1,2) have nf: "\<not> fileAbove f k" "\<not> isFileAt f k"
    and f': "f' = (\<lambda>q. if prefix q k \<and> f q = None then Some (Dir perm) else f q)"
    by (auto elim!: MkdirAll_Inr)
  have "\<not> isFileAt f q"
  proof (cases "q = k")
    case True with nf show ?thesis by simp
  next
    case False
    with assms(3) obtain zs where zs: "k = q @ zs" "zs \<noteq> []" by (auto simp: prefix_def)
    then have "length q < length k" "take (length q) k = q" by auto
    with nf(1) show ?thesis unfolding fileAbove_iff by metis
  qed
  then show ?thesis using assms(3)
    by (auto simp: f' isDirAt_def isFileAt_def split: option.splits node.splits)
qed

lemma WriteFile_Inr:
  assumes "os_WriteFile E p data perm f = Inr f'"
  obtains k m where "keyOf E p = Some k" "\<not> isDirAt f k" "f' = f(k \<mapsto> File m data)"
    "f k = None \<longrightarrow> m = perm" "\<forall>m' c. f k = Some (File m' c) \<longrightarrow> m = m'"
  using assms
  by (auto simp: os_WriteFile_def isDirAt_def split: option.splits if_splits node.splits)

lemma RemoveAll_Inr:
  assumes "os_RemoveAll E p f = Inr f'"
  obtains "keyOf E p = None" "f' = f"
  | k where "keyOf E p = Some k" "\<not> fileAbove f k" "f' = (\<lambda>q. if prefix k q then None else f q)"
  using assms by (auto simp: os_RemoveAll_def split: option.splits if_splits)

lemma copyFile_ok:
  assumes "copyFile E src dst f = (None, f')"
  obtains f1 k m c where "os_MkdirAll E (Dir_of dst) 493 f = Inr f1"
    "os_ReadFile E src f1 = Inr c" "keyOf E dst = Some k" "f' = f1(k \<mapsto> File m c)"
    "\<not> isDirAt f1 k" "f k = None \<longrightarrow> m = 420" "\<forall>m' c'. f k = Some (File m' c') \<longrightarrow> m = m'"
proof -
  from assms obtain f1 c where 1: "os_MkdirAll E (Dir_of dst) 493 f = Inr f1"
    and 2: "os_ReadFile E src f1 = Inr c" and 3: "os_WriteFile E dst c 420 f1 = Inr f'"
    by (auto simp: copyFile_def split: sum.splits)
  from 3 obtain k m where k: "keyOf E dst = Some k" "\<not> isDirAt f1 k" "f' = f1(k \<mapsto> File m c)"
    "f1 k = None \<longrightarrow> m = 420" "\<forall>m' c. f1 k = Some (File m' c) \<longrightarrow> m = m'"
    by (rule WriteFile_Inr)
  have a: "f k = None \<longrightarrow> m = 420"
  proof
    assume "f k = None"
    with 1 k(2) have "f1 k = None"
      by (elim MkdirAll_Inr) (auto simp: isDirAt_def split: if_splits)
    with k(4) show "m = 420" by simp
  qed
  have b: "\<forall>m' c'. f k = Some (File m' c') \<longrightarrow> m = m'"
    using MkdirAll_keeps [OF 1, of k] k(5) by auto
  show thesis using that [OF 1 2 k(1) k(3) k(2) a b] .
qed

lemma copyFile_isFileAt:
  assumes "copyFile E src dst f = (None, f')" "keyOf E dst = Some k"
  shows "isFileAt f' q \<longleftrightarrow> isFileAt f q \<or> q = k"
  using assms(1)
  apply (rule copyFile_ok)
  using assms(2) MkdirAll_isFileAt [of E "Dir_of dst" 493 f]
  by (auto simp: isFileAt_def)

lemma copyFile_err_frame:
  assumes "copyFile E src dst f = (Some e, f')"
  shows "f q \<noteq> None \<longrightarrow> f' q = f q"
  using assms MkdirAll_keeps [of E "Dir_of dst" 493 f]
  by (auto simp: copyFile_def split: sum.splits)

section \<open>Lemmas about the copy steps\<close>

lemma copySources_isFileAt:
  "copySources E sd pd srcs f = (None, f') \<Longrightarrow>
     isFileAt f' q \<longleftrightarrow> isFileAt f q \<or> (\<exists>s\<in>set srcs. keyOf E (Join [pd, Path s]) = Some q)"
proof (induction srcs arbitrary: f)
  case Nil then show ?case by simp
next
  case (Cons s ss)
  from Cons.prems obtain f1 where 1: "copyFile E (Join [sd, Path s]) (Join [pd, Path s]) f = (None, f1)"
    and 2: "copySources E sd pd ss f1 = (None, f')"
    by (auto split: prod.splits option.splits)
  from 1 obtain k where k: "keyOf E (Join [pd, Path s]) = Some k" by (auto elim: copyFile_ok)
  show ?case using Cons.IH [OF 2] copyFile_isFileAt [OF 1 k, of q] k by auto
qed



lemma installCopy_ok:
  assumes "installCopy E pluginsDir manifestPath sourceDir manifest f = (None, f')"
  obtains f1 f2 f3 d where
    "os_RemoveAll E (Join [pluginsDir, Name manifest]) f = Inr f1"
    "os_MkdirAll E (Join [pluginsDir, Name manifest]) 493 f1 = Inr f2"
    "copyFile E manifestPath (Join [Join [pluginsDir, Name manifest], ''gitspace-plugin.toml'']) f2 = (None, f3)"
    "copySources E sourceDir (Join [pluginsDir, Name manifest]) (Sources manifest) f3 = (None, f')"
    "keyOf E (Join [pluginsDir, Name manifest]) = Some d"
    "f1 = (\<lambda>q. if prefix d q then None else f q)"
    "\<not> fileAbove f d"
proof -
  from assms obtain f1 f2 f3 where
    1: "os_RemoveAll E (Join [pluginsDir, Name manifest]) f = Inr f1" and
    2: "os_MkdirAll E (Join [pluginsDir, Name manifest]) 493 f1 = Inr f2" and
    3: "copyFile E manifestPath (Join [Join [pluginsDir, Name manifest], ''gitspace-plugin.toml'']) f2 = (None, f3)" and
    4: "copySources E sourceDir (Join [pluginsDir, Name manifest]) (Sources manifest) f3 = (None, f')"
    by (auto simp: installCopy_def Let_def split: sum.splits prod.splits option.splits)
  from 2 obtain d where d: "keyOf E (Join [pluginsDir, Name manifest]) = Some d"
    by (auto elim: MkdirAll_Inr)
  from 1 d have "f1 = (\<lambda>q. if prefix d q then None else f q)" "\<not> fileAbove f d"
    by (auto elim: RemoveAll_Inr)
  with 1 2 3 4 d show thesis using that by blast
qed

lemma installCopy_fresh:
  assumes "os_MkdirAll E p 493 (\<lambda>q. if prefix d q then None else f q) = Inr f2"
  shows "prefix d k \<Longrightarrow> \<not> isFileAt f2 k"
  using MkdirAll_isFileAt [OF assms, of k] by (simp add: isFileAt_def)

section \<open>Lemmas about a copy that fails\<close>

lemma copySources_append:
  "copySources E sd pd (xs @ ys) f =
     (case copySources E sd pd xs f of
        (Some e, f') \<Rightarrow> (Some e, f')
      | (None, f') \<Rightarrow> copySources E sd pd ys f')"
  by (induction xs arbitrary: f) (auto split: prod.splits option.splits)

lemma copyFile_err:
  assumes "copyFile E src dst f = (Some e, f')"
  shows "(\<forall>k. f k \<noteq> None \<longrightarrow> f' k = f k) \<and> (\<forall>k. isFileAt f' k \<longleftrightarrow> isFileAt f k)"
  using assms MkdirAll_keeps [of E "Dir_of dst" 493 f] MkdirAll_isFileAt [of E "Dir_of dst" 493 f]
  by (auto simp: copyFile_def split: sum.splits)

lemma copyFile_missing:
  assumes "os_Stat E src f = Inl (PathError ENOENT)"
  shows "\<exists>e f'. copyFile E src dst f = (Some e, f')
      \<and> ((\<exists>e'. e = Wrapf ''failed to read source file'' e')
         \<or> (\<exists>e'. e = Wrapf ''failed to create destination directory'' e'))"
proof (cases "os_MkdirAll E (Dir_of dst) 493 f")
  case (Inl e) then show ?thesis by (simp add: copyFile_def)
next
  case (Inr f1)
  have "\<exists>e. os_ReadFile E src f1 = Inl e"
  proof (cases "keyOf E src")
    case None then show ?thesis by (simp add: os_ReadFile_def)
  next
    case (Some k)
    with assms have k: "f k = None"
      by (auto simp: os_Stat_def split: if_splits option.splits)
    have "f1 k = None \<or> (\<exists>m. f1 k = Some (Dir m))"
      using Inr k by (auto elim!: MkdirAll_Inr)
    then show ?thesis using Some by (auto simp: os_ReadFile_def)
  qed
  then show ?thesis using Inr by (auto simp: copyFile_def)
qed

section \<open>Lemmas about the manifest\<close>

lemma load_ok:
  "os_ReadFile E manifestPath f = Inr data \<Longrightarrow> tomlUnmarshal E data = Inr manifest \<Longrightarrow>
     loadPluginManifest E manifestPath f = Inr manifest"
  by (simp add: loadPluginManifest_def)

lemma copySources_entry_point:
  "copySources E sd pd (map (\<lambda>s. s\<lparr>EntryPoint := ep s\<rparr>) srcs) f = copySources E sd pd srcs f"
  by (induction srcs arbitrary: f) (auto split: prod.splits option.splits)

section \<open>Lemmas about the plugins directory and the source\<close>

lemma getPluginsDir_Inr:
  assumes "getPluginsDir E f = Inr (pluginsDir, f0)"
  obtains homeDir pk where "userHomeDir E = Inr homeDir"
    "pluginsDir = Join [homeDir, ''.ssot'', ''gitspace'', ''plugins'']"
    "os_MkdirAll E pluginsDir 493 f = Inr f0" "keyOf E pluginsDir = Some pk"
proof -
  from assms obtain homeDir where h: "userHomeDir E = Inr homeDir"
    "pluginsDir = Join [homeDir, ''.ssot'', ''gitspace'', ''plugins'']"
    "os_MkdirAll E pluginsDir 493 f = Inr f0"
    by (auto simp: getPluginsDir_def Let_def split: sum.splits)
  from h(3) obtain pk where "keyOf E pluginsDir = Some pk" by (auto elim: MkdirAll_Inr)
  with h show thesis using that by blast
qed

lemma getPluginsDir_keeps:
  "getPluginsDir E f = Inr (pluginsDir, f0) \<Longrightarrow> f k \<noteq> None \<Longrightarrow> f0 k = f k"
  by (erule getPluginsDir_Inr) (rule MkdirAll_keeps)

lemma getPluginsDir_changes:
  "getPluginsDir E f = Inr (pluginsDir, f0) \<Longrightarrow> keyOf E pluginsDir = Some pk \<Longrightarrow>
     \<not> prefix k pk \<Longrightarrow> f0 k = f k"
  by (erule getPluginsDir_Inr) (metis MkdirAll_changes)

lemma Abs_Clean:
  assumes "Abs E source = Inr a" "IsAbs source \<or> (\<exists>wd. getwd E = Inr wd \<and> IsAbs wd)"
  shows "\<exists>q. IsAbs q \<and> a = Clean q"
proof (cases "IsAbs source")
  case True with assms(1) show ?thesis by (auto simp: Abs_def)
next
  case False
  with assms(2) obtain wd where wd: "getwd E = Inr wd" "IsAbs wd" by blast
  then have "wd \<noteq> []" by (auto simp: IsAbs_def)
  then have "Join [wd, source] = Clean (wd @ CHR ''/'' # source)" by (rule Join2)
  moreover have "IsAbs (wd @ CHR ''/'' # source)" using wd(2) by (auto simp: IsAbs_def)
  ultimately show ?thesis using assms(1) False wd(1) by (auto simp: Abs_def)
qed

section \<open>Lemmas about the go tool\<close>

lemma runGo_frame:
  "goConfined E \<Longrightarrow> keyOf E dir = Some d \<Longrightarrow> \<not> prefix d k \<Longrightarrow> snd (runGo E msg args dir f) k = f k"
  unfolding goConfined_def runGo_def
  by (auto split: prod.splits option.splits) (metis snd_conv)+

lemma installGoMod_frame:
  assumes "goConfined E" "keyOf E dir = Some d" "\<not> prefix d k"
  shows "snd (installGoMod E dir name f) k = f k"
proof -
  note g = runGo_frame [OF assms]
  show ?thesis unfolding installGoMod_def
    by (auto split: prod.splits option.splits if_splits) (metis g snd_conv)+
qed

section \<open>Lemmas about well-formed file systems, temporary directories and errors\<close>

lemma wf_none_below:
  assumes "wf_fs f" "f k = None" "prefix k q"
  shows "f q = None"
proof -
  from assms(3) obtain zs where q: "q = k @ zs" by (auto simp: prefix_def)
  have "f (k @ zs) = None"
  proof (induction zs rule: rev_induct)
    case Nil show ?case using assms(2) by simp
  next
    case (snoc z zs)
    show ?case
    proof (rule ccontr)
      assume "f (k @ zs @ [z]) \<noteq> None"
      with assms(1) have "isDirAt f (butlast (k @ zs @ [z]))"
        unfolding wf_fs_def by blast
      then have "isDirAt f (k @ zs)" by (simp add: butlast_append)
      with snoc show False by (simp add: isDirAt_def)
    qed
  qed
  with q show ?thesis by simp
qed

lemma MkdirAll_wf:
  assumes "wf_fs f" "os_MkdirAll E p perm f = Inr f'"
  shows "wf_fs f'"
  unfolding wf_fs_def
proof (intro allI impI)
  fix q assume q: "f' q \<noteq> None" "q \<noteq> []"
  from assms(2) obtain k where k: "keyOf E p = Some k" by (auto elim: MkdirAll_Inr)
  show "isDirAt f' (butlast q)"
  proof (cases "f q = None")
    case False
    with assms(1) q(2) have "isDirAt f (butlast q)" unfolding wf_fs_def by blast
    then show ?thesis using MkdirAll_keeps [OF assms(2), of "butlast q"]
      by (auto simp: isDirAt_def split: option.splits)
  next
    case True
    with q(1) have "f' q \<noteq> f q" by simp
    from MkdirAll_changes [OF assms(2) k this] have "prefix q k" by simp
    then have "prefix (butlast q) k"
      by (metis prefix_order.order_trans prefixeq_butlast)
    then show ?thesis by (rule MkdirAll_dirs [OF assms(2) k])
  qed
qed

lemma Mkdir_Inr:
  assumes "os_Mkdir E p perm f = Inr f'"
  obtains k where "keyOf E p = Some k" "f k = None" "f' = f(k \<mapsto> Dir perm)"
    "k \<noteq> []" "isDirAt f (butlast k)" "\<not> fileAbove f k"
  using assms by (auto simp: os_Mkdir_def split: option.splits if_splits)

lemma mkdirTempLoop_Inr:
  "mkdirTempLoop E pre suf rs f = Inr (t, f1) \<Longrightarrow>
     \<exists>k. keyOf E t = Some k \<and> f k = None \<and> f1 = f(k \<mapsto> Dir 448) \<and> \<not> fileAbove f k
        \<and> k \<noteq> [] \<and> isDirAt f (butlast k)"
proof (induction rs)
  case Nil then show ?case by simp
next
  case (Cons r rs)
  show ?case
  proof (cases "os_Mkdir E (pre @ r @ suf) 448 f")
    case (Inr f')
    with Cons.prems have "t = pre @ r @ suf" "f1 = f'" by simp_all
    with Inr show ?thesis by (auto elim!: Mkdir_Inr)
  next
    case (Inl e)
    with Cons.prems have "mkdirTempLoop E pre suf rs f = Inr (t, f1)"
      by (simp split: if_splits)
    then show ?thesis by (rule Cons.IH)
  qed
qed

lemma MkdirTemp_Inr:
  assumes "os_MkdirTemp E pattern f = Inr (t, f1)"
  obtains k where "keyOf E t = Some k" "f k = None" "f1 = f(k \<mapsto> Dir 448)" "\<not> fileAbove f k"
    "k \<noteq> []" "isDirAt f (butlast k)"
  using assms mkdirTempLoop_Inr [of E _ _ "randomNames E" f t f1]
  by (auto simp: os_MkdirTemp_def split: if_splits prod.splits)

lemma copySources_error:
  "copySources E sd pd srcs f = (Some err, f') \<Longrightarrow>
     \<exists>s e. s \<in> set srcs \<and> err = Wrapf (''failed to copy plugin file '' @ Path s) e"
proof (induction srcs arbitrary: f)
  case Nil then show ?case by simp
next
  case (Cons x xs)
  obtain r g where c: "copyFile E (Join [sd, Path x]) (Join [pd, Path x]) f = (r, g)" by fastforce
  show ?case
  proof (cases r)
    case (Some e)
    with c Cons.prems have "err = Wrapf (''failed to copy plugin file '' @ Path x) e" by simp
    then show ?thesis by (intro exI [of _ x] exI [of _ e]) simp
  next
    case None
    with c Cons.prems have "copySources E sd pd xs g = (Some err, f')" by simp
    from Cons.IH [OF this] obtain s e where "s \<in> set xs"
      "err = Wrapf (''failed to copy plugin file '' @ Path s) e" by blast
    then show ?thesis by (intro exI [of _ s] exI [of _ e]) simp
  qed
qed

lemma runGo_error: "runGo E msg args dir f = (Some err, f') \<Longrightarrow> \<exists>e out. err = WrapOutf msg e out"
  by (auto simp: runGo_def split: prod.splits option.splits)

lemma installGoMod_error:
  "installGoMod E dir name f = (Some err, f') \<Longrightarrow> \<exists>m e out. err = WrapOutf m e out"
  by (auto simp: installGoMod_def split: prod.splits option.splits if_splits dest: runGo_error)

lemma installCopy_error:
  assumes "installCopy E pluginsDir manifestPath sourceDir manifest f = (Some err, f')"
  shows "err \<noteq> Wrapf ''failed to load manifest'' e"
proof -
  have "copySources E sd pd srcs g = (Some err, g') \<Longrightarrow> err \<noteq> Wrapf ''failed to load manifest'' e"
    for sd pd srcs g g'
    by (drule copySources_error) auto
  then show ?thesis using assms
    by (auto simp: installCopy_def Let_def split: sum.splits prod.splits option.splits)
qed

lemma installStaged_load_error:
  assumes "installStaged E pluginsDir manifestPath sourceDir f = (Some (Wrapf ''failed to load manifest'' e), f')"
  shows "f' = f \<and> loadPluginManifest E manifestPath f = Inl e"
proof (cases "loadPluginManifest E manifestPath f")
  case (Inl e') with assms show ?thesis by (simp add: installStaged_def)
next
  case (Inr manifest)
  show ?thesis
  proof (cases "installCopy E pluginsDir manifestPath sourceDir manifest f")
    case (Pair r g)
    show ?thesis
    proof (cases r)
      case (Some err)
      with Pair Inr assms have "err = Wrapf ''failed to load manifest'' e"
        by (simp add: installStaged_def)
      with installCopy_error [of E pluginsDir manifestPath sourceDir manifest f err g e] Pair Some
      show ?thesis by simp
    next
      case None
      with Pair Inr assms have
        "installGoMod E (Join [pluginsDir, Name manifest]) (Name manifest) g
           = (Some (Wrapf ''failed to load manifest'' e), f')"
        by (simp add: installStaged_def)
      from installGoMod_error [OF this] show ?thesis by simp
    qed
  qed
qed

section \<open>Lemmas about downloads\<close>

lemma wf_dirs_above:
  assumes "wf_fs f"
  shows "f k \<noteq> None \<Longrightarrow> j < length k \<Longrightarrow> isDirAt f (take j k)"
proof (induction k rule: rev_induct)
  case Nil then show ?case by simp
next
  case (snoc x ks)
  from assms snoc.prems(1) have d: "isDirAt f ks"
    unfolding wf_fs_def by (metis butlast_snoc snoc_eq_iff_butlast)
  show ?case
  proof (cases "j < length ks")
    case True
    from d have "f ks \<noteq> None" by (auto simp: isDirAt_def split: option.splits)
    from snoc.IH [OF this True] True show ?thesis by simp
  next
    case False
    with snoc.prems(2) have "j = length ks" by simp
    with d show ?thesis by simp
  qed
qed

lemma WriteFile_isDirAt:
  "os_WriteFile E p data perm f = Inr f' \<Longrightarrow> isDirAt f q \<Longrightarrow> isDirAt f' q"
  by (erule WriteFile_Inr) (auto simp: isDirAt_def)

lemma downloadFile_isDirAt:
  "downloadFile E url p f = (r, f') \<Longrightarrow> isDirAt f q \<Longrightarrow> isDirAt f' q"
  by (auto simp: downloadFile_def split: sum.splits if_splits dest: WriteFile_isDirAt)

lemma downloadSources_isDirAt:
  "downloadSources E url t srcs f = (r, f') \<Longrightarrow> isDirAt f q \<Longrightarrow> isDirAt f' q"
proof (induction srcs arbitrary: f)
  case Nil then show ?case by simp
next
  case (Cons s ss)
  obtain r1 f1 where d: "downloadFile E (url @ ''/'' @ Path s) (Join [t, Path s]) f = (r1, f1)"
    by fastforce
  from downloadFile_isDirAt [OF d Cons.prems(2)] have q: "isDirAt f1 q" .
  show ?case
  proof (cases r1)
    case None
    with d Cons.prems(1) have "downloadSources E url t ss f1 = (r, f')" by simp
    from Cons.IH [OF this q] show ?thesis .
  next
    case (Some e)
    with d Cons.prems(1) have "f' = f1" by simp
    with q show ?thesis by simp
  qed
qed

lemma downloadSources_append:
  "downloadSources E url t (xs @ ys) f =
     (case downloadSources E url t xs f of
        (Some e, f') \<Rightarrow> (Some e, f')
      | (None, f') \<Rightarrow> downloadSources E url t ys f')"
  by (induction xs arbitrary: f) (auto split: prod.splits option.splits)

lemma deferRemoveAll_clears:
  assumes "keyOf E t = Some tk" "\<forall>j<length tk. isDirAt g (take j tk)" "prefix tk q"
  shows "snd (deferRemoveAll E t (r, g)) q = None"
proof -
  have "\<not> fileAbove g tk"
  proof
    assume "fileAbove g tk"
    then obtain j where j: "j < length tk" "isFileAt g (take j tk)"
      unfolding fileAbove_iff by blast
    from assms(2) j(1) have "isDirAt g (take j tk)" by blast
    with j(2) show False by (auto simp: isDirAt_simps isFileAt_simps)
  qed
  then show ?thesis using assms(1,3) by (simp add: deferRemoveAll_def os_RemoveAll_def)
qed

section \<open>Lemmas about what the copy steps leave alone\<close>










section \<open>Lemmas about installing a second time\<close>





section \<open>Unfolding the model on a concrete world\<close>

lemmas world_defs =
  helloEnv_def exEnv_def exFs_def evilFs_def emptyFs_def noEntryFs_def missingFs_def brokenFs_def climbingFs_def exGo_def exDecode_def exHttp_def exCatalog_def
  helloManifest_def evilManifest_def emptyManifest_def noEntryManifest_def climbingManifest_def
  noRepo_def

lemmas run_defs =
  getPluginsDir_def Join_def Clean_def IsAbs_def splitSlash_def absKey_def
  os_MkdirAll_def os_Mkdir_def keyOf_def fileAbove_def isFileAt_def isDirAt_def HasPrefix_def
  installLocal_def Abs_def os_Stat_def installStaged_def loadPluginManifest_def os_ReadFile_def
  installCopy_def os_RemoveAll_def copyFile_def Dir_of_def os_WriteFile_def installGoMod_def
  IsNotExist_def runGo_def TrimPrefix_def Ext_def upt_rec
  os_MkdirTemp_def prefixAndSuffix_def joinPath_def downloadFile_def deferRemoveAll_def

lemma wf_brokenFs: "wf_fs brokenFs"
  unfolding wf_fs_def brokenFs_def isDirAt_def
  by (auto split: if_splits)

lemma wf_exFs: "wf_fs exFs"
  unfolding wf_fs_def exFs_def isDirAt_def
  by (auto split: if_splits)


section \<open>Properties\<close>

subsection \<open>Catalog resolution\<close>

text \<open>
  C5. When the catalog was fetched and has no plugin of the given name, resolving the
  catalog reference fails with the error "plugin NAME not found in Gitspace Catalog" and
  leaves the file system as it found it: no temporary directory is made. Through
  \<^verbatim>\<open>installPlugin\<close> on \<^verbatim>\<open>catalog://NAME\<close> the outcome is the same error and the file
  system that \<^verbatim>\<open>getPluginsDir\<close> left.
\<close>

theorem catalog_entry_absent:
  assumes "fetchGitspaceCatalog E ''ssotops'' ''gitspace-catalog'' = Inr catalog"
    and "Plugins catalog name = None"
  shows "installFromGitspaceCatalog (Suc n) E name f =
           Some (Some (Errorf (''plugin '' @ name @ '' not found in Gitspace Catalog'')), f)
         \<and> (\<forall>pluginsDir f0. getPluginsDir E f = Inr (pluginsDir, f0) \<longrightarrow>
              installPlugin (Suc (Suc n)) E (''catalog://'' @ name) f =
                Some (Some (Errorf (''plugin '' @ name @ '' not found in Gitspace Catalog'')), f0))"
  using assms by (simp add: HasPrefix_def TrimPrefix_def)

theorem catalog_entry_absent_witness:
  "installFromGitspaceCatalog 1 exEnv ''nope'' exFs =
     Some (Some (Errorf ''plugin nope not found in Gitspace Catalog''), exFs)"
  using catalog_entry_absent [of exEnv exCatalog "''nope''" 0 exFs]
  by (simp add: exEnv_def exCatalog_def)

text \<open>
  C6. In \<^verbatim>\<open>installFromGitspaceCatalog\<close>, once the temporary directory is made (in a
  well-formed file system): when the download of the manifest fails, the function returns
  "failed to download gitspace-plugin.toml"; when the manifest was downloaded and loaded,
  the sources before \<open>s\<close> were downloaded and the download of \<open>s\<close> fails, it returns
  "failed to download source file" followed by the path of \<open>s\<close>. In both cases nothing
  further is downloaded and the deferred \<^verbatim>\<open>os.RemoveAll\<close> has removed the temporary
  directory: no node at or below it is left.
\<close>

theorem download_failure_removes_temp_dir:
  assumes "wf_fs f"
    and "fetchGitspaceCatalog E ''ssotops'' ''gitspace-catalog'' = Inr catalog"
    and "Plugins catalog catalogItem = Some plugin" and "CPath plugin \<noteq> []"
    and "os_MkdirTemp E ''gitspace-plugin-*'' f = Inr (tempDir, f1)"
    and "keyOf E tempDir = Some tk"
    and "url = ''https://raw.githubusercontent.com/ssotops/gitspace-catalog/master/'' @ CPath plugin"
  shows
    "(\<forall>e f2. downloadFile E (url @ ''/gitspace-plugin.toml'')
                (Join [tempDir, ''gitspace-plugin.toml'']) f1 = (Some e, f2) \<longrightarrow>
        (\<exists>f'. installFromGitspaceCatalog (Suc n) E catalogItem f =
                 Some (Some (Wrapf ''failed to download gitspace-plugin.toml'' e), f')
             \<and> (\<forall>k. prefix tk k \<longrightarrow> f' k = None)))
   \<and> (\<forall>f2 pm pre s post fa e fb.
         downloadFile E (url @ ''/gitspace-plugin.toml'')
           (Join [tempDir, ''gitspace-plugin.toml'']) f1 = (None, f2)
       \<and> loadPluginManifest E (Join [tempDir, ''gitspace-plugin.toml'']) f2 = Inr pm
       \<and> Sources pm = pre @ s # post
       \<and> downloadSources E url tempDir pre f2 = (None, fa)
       \<and> downloadFile E (url @ ''/'' @ Path s) (Join [tempDir, Path s]) fa = (Some e, fb) \<longrightarrow>
        (\<exists>f'. installFromGitspaceCatalog (Suc n) E catalogItem f =
                 Some (Some (Wrapf (''failed to download source file '' @ Path s) e), f')
             \<and> (\<forall>k. prefix tk k \<longrightarrow> f' k = None)))"
proof -
  let ?mp = "Join [tempDir, ''gitspace-plugin.toml'']"
  from assms(5) obtain tk' where tk': "keyOf E tempDir = Some tk'" "f tk' = None"
    "f1 = f(tk' \<mapsto> Dir 448)" "tk' \<noteq> []" "isDirAt f (butlast tk')" by (rule MkdirTemp_Inr)
  with assms(6) have tk: "f tk = None" "f1 = f(tk \<mapsto> Dir 448)"
    and par: "tk \<noteq> []" "isDirAt f (butlast tk)" by simp_all
  have dirs: "\<forall>j<length tk. isDirAt f1 (take j tk)"
  proof (intro allI impI)
    fix j assume j: "j < length tk"
    from par have p: "f (butlast tk) \<noteq> None" "isDirAt f (butlast tk)"
      by (auto simp: isDirAt_simps)
    have "isDirAt f (take j tk)"
    proof (cases "j = length tk - 1")
      case True with p(2) show ?thesis by (simp add: butlast_conv_take)
    next
      case False
      with j have "j < length (butlast tk)" by simp
      from wf_dirs_above [OF assms(1) p(1) this] show ?thesis
        by (simp add: take_butlast j)
    qed
    moreover have "take j tk \<noteq> tk"
    proof
      assume "take j tk = tk"
      then have "length (take j tk) = length tk" by simp
      with j show False by simp
    qed
    ultimately show "isDirAt f1 (take j tk)" by (simp add: tk(2) isDirAt_def)
  qed
  have a: "\<exists>f'. installFromGitspaceCatalog (Suc n) E catalogItem f =
                 Some (Some (Wrapf ''failed to download gitspace-plugin.toml'' e), f')
             \<and> (\<forall>k. prefix tk k \<longrightarrow> f' k = None)"
    if d: "downloadFile E (url @ ''/gitspace-plugin.toml'') ?mp f1 = (Some e, f2)" for e f2
  proof -
    have "\<forall>j<length tk. isDirAt f2 (take j tk)"
      using dirs downloadFile_isDirAt [OF d] by blast
    from deferRemoveAll_clears [OF assms(6) this]
    have "\<forall>k. prefix tk k \<longrightarrow>
            snd (deferRemoveAll E tempDir (Some (Wrapf ''failed to download gitspace-plugin.toml'' e), f2)) k = None"
      by blast
    moreover have "installFromGitspaceCatalog (Suc n) E catalogItem f =
        Some (deferRemoveAll E tempDir (Some (Wrapf ''failed to download gitspace-plugin.toml'' e), f2))"
      using assms(2,3,4,5) d by (simp add: assms(7))
    ultimately show ?thesis by (auto simp: deferRemoveAll_def)
  qed
  have b: "\<exists>f'. installFromGitspaceCatalog (Suc n) E catalogItem f =
                 Some (Some (Wrapf (''failed to download source file '' @ Path s) e), f')
             \<and> (\<forall>k. prefix tk k \<longrightarrow> f' k = None)"
    if d: "downloadFile E (url @ ''/gitspace-plugin.toml'') ?mp f1 = (None, f2)"
      and l: "loadPluginManifest E ?mp f2 = Inr pm"
      and s: "Sources pm = pre @ s # post"
      and p: "downloadSources E url tempDir pre f2 = (None, fa)"
      and x: "downloadFile E (url @ ''/'' @ Path s) (Join [tempDir, Path s]) fa = (Some e, fb)"
    for f2 pm pre s post fa e fb
  proof -
    have ds: "downloadSources E url tempDir (Sources pm) f2 =
        (Some (Wrapf (''failed to download source file '' @ Path s) e), fb)"
      using p x by (simp add: s downloadSources_append)
    have "\<forall>j<length tk. isDirAt fb (take j tk)"
      using dirs downloadFile_isDirAt [OF d] downloadSources_isDirAt [OF ds] by blast
    from deferRemoveAll_clears [OF assms(6) this]
    have "\<forall>k. prefix tk k \<longrightarrow>
            snd (deferRemoveAll E tempDir
                  (Some (Wrapf (''failed to download source file '' @ Path s) e), fb)) k = None"
      by blast
    moreover have "installFromGitspaceCatalog (Suc n) E catalogItem f =
        Some (deferRemoveAll E tempDir (Some (Wrapf (''failed to download source file '' @ Path s) e), fb))"
      using assms(2,3,4,5) d l ds by (simp add: assms(7))
    ultimately show ?thesis by (auto simp: deferRemoveAll_def)
  qed
  from a b show ?thesis by blast
qed

theorem download_failure_removes_temp_dir_witness:
  "fst (the (installFromGitspaceCatalog 1 exEnv ''hello'' exFs)) =
     Some (Wrapf ''failed to download source file main.go'' (Errorf ''bad status: 404 Not Found''))
   \<and> snd (the (installFromGitspaceCatalog 1 exEnv ''hello'' exFs)) [''tmp'', ''gitspace-plugin-1''] = None
   \<and> snd (the (installFromGitspaceCatalog 1 exEnv ''hello'' exFs))
        [''tmp'', ''gitspace-plugin-1'', ''gitspace-plugin.toml''] = None"
proof -
  let ?url = "''https://raw.githubusercontent.com/ssotops/gitspace-catalog/master/plugins/hello''"
  let ?t = "''/tmp/gitspace-plugin-1''"
  let ?tk = "[''tmp'', ''gitspace-plugin-1'']"
  let ?s = "\<lparr>Path = ''main.go'', EntryPoint = ''main'', Repo = noRepo\<rparr>"
  let ?fa = "snd (projr (os_MkdirTemp exEnv ''gitspace-plugin-*'' exFs))"
  let ?fb = "snd (downloadFile exEnv (?url @ ''/gitspace-plugin.toml'') (Join [?t, ''gitspace-plugin.toml'']) ?fa)"
  have c: "fetchGitspaceCatalog exEnv ''ssotops'' ''gitspace-catalog'' = Inr exCatalog"
    by (simp add: exEnv_def)
  have p: "Plugins exCatalog ''hello'' = Some \<lparr>CPath = ''plugins/hello'', CVersion = ''1'', CDescription = []\<rparr>"
    by (simp add: exCatalog_def)
  have np: "CPath \<lparr>CPath = ''plugins/hello'', CVersion = ''1'', CDescription = []\<rparr> \<noteq> []" by simp
  have t: "os_MkdirTemp exEnv ''gitspace-plugin-*'' exFs = Inr (?t, ?fa)"
    by (simp add: world_defs run_defs)
  have k: "keyOf exEnv ?t = Some ?tk" by (simp add: world_defs run_defs)
  have u: "?url = ''https://raw.githubusercontent.com/ssotops/gitspace-catalog/master/''
              @ CPath \<lparr>CPath = ''plugins/hello'', CVersion = ''1'', CDescription = []\<rparr>" by simp
  have d: "downloadFile exEnv (?url @ ''/gitspace-plugin.toml'') (Join [?t, ''gitspace-plugin.toml'']) ?fa
             = (None, ?fb)"
    by (simp add: world_defs run_defs)
  have l: "loadPluginManifest exEnv (Join [?t, ''gitspace-plugin.toml'']) ?fb = Inr helloManifest"
    by (simp add: world_defs run_defs)
  have s: "Sources helloManifest = [] @ ?s # []" by (simp add: helloManifest_def)
  have ds: "downloadSources exEnv ?url ?t [] ?fb = (None, ?fb)" by simp
  have x: "downloadFile exEnv (?url @ ''/'' @ Path ?s) (Join [?t, Path ?s]) ?fb
             = (Some (Errorf ''bad status: 404 Not Found''), ?fb)"
    by (simp add: downloadFile_def exEnv_def exHttp_def)
  from download_failure_removes_temp_dir [OF wf_exFs c p np t k u, of 0] d l s ds x
  obtain f' where r: "installFromGitspaceCatalog (Suc 0) exEnv ''hello'' exFs =
      Some (Some (Wrapf (''failed to download source file '' @ Path ?s)
                   (Errorf ''bad status: 404 Not Found'')), f')"
    and n: "\<forall>k. prefix ?tk k \<longrightarrow> f' k = None"
    by blast
  from n have "f' ?tk = None" "f' (?tk @ [''gitspace-plugin.toml'']) = None" by simp_all
  with r show ?thesis by simp
qed

subsection \<open>The copy steps\<close>



text \<open>
  C2, as the code has it. When \<^verbatim>\<open>installPlugin\<close> succeeds on a staged source, the
  manifest was loaded, the copy steps succeeded, and when they ended the regular files at
  or below the plugin's directory were exactly the copy of the manifest and the copies of
  the declared sources whose joined path lies there. The go module steps then ran in that
  directory; a \<^verbatim>\<open>go\<close> tool that writes only below its working directory leaves
  everything outside the plugin's directory as the copy steps left it.
\<close>

theorem destination_files_after_install:
  assumes "installStaged E pluginsDir manifestPath sourceDir f = (None, f'')"
  shows "\<exists>manifest fc d.
      loadPluginManifest E manifestPath f = Inr manifest
    \<and> keyOf E (Join [pluginsDir, Name manifest]) = Some d
    \<and> installCopy E pluginsDir manifestPath sourceDir manifest f = (None, fc)
    \<and> installGoMod E (Join [pluginsDir, Name manifest]) (Name manifest) fc = (None, f'')
    \<and> (\<forall>k. prefix d k \<longrightarrow>
         (isFileAt fc k \<longleftrightarrow>
            keyOf E (Join [Join [pluginsDir, Name manifest], ''gitspace-plugin.toml'']) = Some k
          \<or> (\<exists>s\<in>set (Sources manifest).
                keyOf E (Join [Join [pluginsDir, Name manifest], Path s]) = Some k)))
    \<and> (goConfined E \<longrightarrow> (\<forall>k. \<not> prefix d k \<longrightarrow> f'' k = fc k))"
proof -
  from assms obtain manifest fc where
    l: "loadPluginManifest E manifestPath f = Inr manifest" and
    c: "installCopy E pluginsDir manifestPath sourceDir manifest f = (None, fc)" and
    g: "installGoMod E (Join [pluginsDir, Name manifest]) (Name manifest) fc = (None, f'')"
    by (auto simp: installStaged_def split: sum.splits prod.splits option.splits)
  let ?pd = "Join [pluginsDir, Name manifest]"
  from c obtain f1 f2 f3 d where
    2: "os_MkdirAll E ?pd 493 f1 = Inr f2" and
    3: "copyFile E manifestPath (Join [?pd, ''gitspace-plugin.toml'']) f2 = (None, f3)" and
    4: "copySources E sourceDir ?pd (Sources manifest) f3 = (None, fc)" and
    d: "keyOf E ?pd = Some d" and
    f1: "f1 = (\<lambda>q. if prefix d q then None else f q)"
    by (rule installCopy_ok)
  from 3 obtain mk where mk: "keyOf E (Join [?pd, ''gitspace-plugin.toml'']) = Some mk"
    by (auto elim: copyFile_ok)
  have files: "isFileAt fc k \<longleftrightarrow> keyOf E (Join [?pd, ''gitspace-plugin.toml'']) = Some k
      \<or> (\<exists>s\<in>set (Sources manifest). keyOf E (Join [?pd, Path s]) = Some k)" if "prefix d k" for k
    using copySources_isFileAt [OF 4, of k] copyFile_isFileAt [OF 3 mk, of k] mk
      installCopy_fresh [OF 2 [unfolded f1] that] by auto
  have frame: "f'' k = fc k" if "goConfined E" "\<not> prefix d k" for k
    using installGoMod_frame [OF that(1) d that(2), of "Name manifest" fc] g by simp
  from l d c g files frame show ?thesis by blast
qed

theorem destination_files_after_install_witness:
  "fst (installStaged exEnv ''/h/.ssot/gitspace/plugins'' ''/src/gitspace-plugin.toml'' ''/src'' exFs) = None
   \<and> loadPluginManifest exEnv ''/src/gitspace-plugin.toml'' exFs = Inr helloManifest
   \<and> isFileAt (snd (installCopy exEnv ''/h/.ssot/gitspace/plugins'' ''/src/gitspace-plugin.toml'' ''/src''
                      helloManifest exFs))
        [''h'', ''.ssot'', ''gitspace'', ''plugins'', ''hello'', ''main.go'']"
proof -
  let ?r = "installStaged exEnv ''/h/.ssot/gitspace/plugins'' ''/src/gitspace-plugin.toml'' ''/src'' exFs"
  have 1: "fst ?r = None" by (simp add: world_defs run_defs)
  then have ok: "?r = (None, snd ?r)" by (metis prod.collapse)
  have l: "loadPluginManifest exEnv ''/src/gitspace-plugin.toml'' exFs = Inr helloManifest"
    by (simp add: world_defs run_defs)
  have d: "keyOf exEnv (Join [''/h/.ssot/gitspace/plugins'', Name helloManifest])
             = Some [''h'', ''.ssot'', ''gitspace'', ''plugins'', ''hello'']"
    by (simp add: world_defs run_defs)
  have k: "keyOf exEnv (Join [Join [''/h/.ssot/gitspace/plugins'', Name helloManifest], ''main.go''])
             = Some [''h'', ''.ssot'', ''gitspace'', ''plugins'', ''hello'', ''main.go'']"
    by (simp add: world_defs run_defs)
  have s: "Sources helloManifest = [\<lparr>Path = ''main.go'', EntryPoint = ''main'', Repo = noRepo\<rparr>]"
    by (simp add: helloManifest_def)
  from destination_files_after_install [OF ok] l d k s
  have "isFileAt (snd (installCopy exEnv ''/h/.ssot/gitspace/plugins'' ''/src/gitspace-plugin.toml'' ''/src''
                      helloManifest exFs))
        [''h'', ''.ssot'', ''gitspace'', ''plugins'', ''hello'', ''main.go'']"
    by (auto simp: prefix_def)
  with 1 l show ?thesis by blast
qed

text \<open>
  C2 as stated fails: after a successful install of the plugin staged in /src, whose
  manifest declares the one source main.go, the plugin's directory holds go.mod, written
  by \<^verbatim>\<open>go mod init\<close>.
\<close>

theorem destination_holds_go_mod_counterexample:
  "fst (the (installPlugin 1 exEnv ''/src'' exFs)) = None
   \<and> map Path (Sources helloManifest) = [''main.go'']
   \<and> snd (the (installPlugin 1 exEnv ''/src'' exFs))
        [''h'', ''.ssot'', ''gitspace'', ''plugins'', ''hello'', ''go.mod''] = Some (File 438 ''module'')"
  by (simp add: world_defs run_defs)

subsection \<open>The manifest is not validated\<close>

text \<open>
  C1, as the code has it. \<^verbatim>\<open>loadPluginManifest\<close> reads and decodes and checks nothing:
  a manifest is returned as decoded, whatever its source paths. When the copy steps
  succeed, every declared source has been written to the node that
  \<^verbatim>\<open>filepath.Join(pluginDir, path)\<close> names; for an absolute plugins directory that node is
  found by walking the elements of the path from the plugin's directory, a \<^verbatim>\<open>..\<close>
  stepping up, so a path that escapes is written outside the plugin's directory.
\<close>

theorem manifest_paths_not_validated:
  assumes "os_ReadFile E manifestPath f = Inr data" and "tomlUnmarshal E data = Inr manifest"
  shows "loadPluginManifest E manifestPath f = Inr manifest
    \<and> (\<forall>f'. installCopy E pluginsDir manifestPath sourceDir manifest f = (None, f') \<longrightarrow>
          (\<forall>s\<in>set (Sources manifest).
             \<exists>k. keyOf E (Join [Join [pluginsDir, Name manifest], Path s]) = Some k \<and> isFileAt f' k))
    \<and> (IsAbs pluginsDir \<longrightarrow>
          (\<forall>s\<in>set (Sources manifest).
             keyOf E (Join [Join [pluginsDir, Name manifest], Path s]) =
               Some (cleanElems True (rev (absKey (Join [pluginsDir, Name manifest])))
                       (splitSlash (Path s)))))"
proof -
  let ?pd = "Join [pluginsDir, Name manifest]"
  have a: "loadPluginManifest E manifestPath f = Inr manifest"
    using assms by (rule load_ok)
  have b: "\<exists>k. keyOf E (Join [?pd, Path s]) = Some k \<and> isFileAt f' k"
    if c: "installCopy E pluginsDir manifestPath sourceDir manifest f = (None, f')"
      and s: "s \<in> set (Sources manifest)" for f' s
  proof -
    from c obtain f3 where
      4: "copySources E sourceDir ?pd (Sources manifest) f3 = (None, f')"
      by (rule installCopy_ok)
    have *: "copySources E sd pd srcs g = (None, g') \<Longrightarrow> s \<in> set srcs \<Longrightarrow>
        \<exists>k. keyOf E (Join [pd, Path s]) = Some k" for sd pd srcs g g'
    proof (induction srcs arbitrary: g)
      case Nil then show ?case by simp
    next
      case (Cons x xs)
      from Cons.prems(1) obtain g1 where 1: "copyFile E (Join [sd, Path x]) (Join [pd, Path x]) g = (None, g1)"
        and 2: "copySources E sd pd xs g1 = (None, g')"
        by (auto split: prod.splits option.splits)
      show ?case
      proof (cases "s = x")
        case True with 1 show ?thesis by (auto elim: copyFile_ok)
      next
        case False with Cons.prems(2) Cons.IH [OF 2] show ?thesis by simp
      qed
    qed
    from * [OF 4 s] obtain k where k: "keyOf E (Join [?pd, Path s]) = Some k" ..
    with copySources_isFileAt [OF 4, of k] s show ?thesis by auto
  qed
  have c: "keyOf E (Join [?pd, Path s]) =
             Some (cleanElems True (rev (absKey ?pd)) (splitSlash (Path s)))"
    if "IsAbs pluginsDir" for s
  proof -
    from that have abs: "IsAbs ?pd" by (rule IsAbs_Join)
    show ?thesis using keyOf_abs [OF IsAbs_Join [OF abs]] absKey_Join [OF abs] by simp
  qed
  from a b c show ?thesis by blast
qed

theorem manifest_paths_not_validated_witness:
  "loadPluginManifest exEnv ''/src/gitspace-plugin.toml'' evilFs = Inr evilManifest
   \<and> fst (installCopy exEnv ''/h/.ssot/gitspace/plugins'' ''/src/gitspace-plugin.toml'' ''/src''
            evilManifest evilFs) = None
   \<and> isFileAt (snd (installCopy exEnv ''/h/.ssot/gitspace/plugins'' ''/src/gitspace-plugin.toml'' ''/src''
                      evilManifest evilFs))
        [''h'', ''.ssot'', ''gitspace'', ''etc'', ''passwd'']"
proof -
  let ?r = "installCopy exEnv ''/h/.ssot/gitspace/plugins'' ''/src/gitspace-plugin.toml'' ''/src''
              evilManifest evilFs"
  have r: "os_ReadFile exEnv ''/src/gitspace-plugin.toml'' evilFs = Inr ''E''"
    by (simp add: world_defs run_defs)
  have u: "tomlUnmarshal exEnv ''E'' = Inr evilManifest"
    by (simp add: exEnv_def exDecode_def)
  have 1: "fst ?r = None" by (simp add: world_defs run_defs)
  then have ok: "?r = (None, snd ?r)" by (metis prod.collapse)
  have s: "Sources evilManifest = [\<lparr>Path = ''../../etc/passwd'', EntryPoint = ''main'', Repo = noRepo\<rparr>]"
    by (simp add: evilManifest_def)
  have k: "keyOf exEnv (Join [Join [''/h/.ssot/gitspace/plugins'', Name evilManifest], ''../../etc/passwd''])
             = Some [''h'', ''.ssot'', ''gitspace'', ''etc'', ''passwd'']"
    by (simp add: world_defs run_defs)
  from manifest_paths_not_validated [OF r u, of "''/h/.ssot/gitspace/plugins''" "''/src''"]
  have l: "loadPluginManifest exEnv ''/src/gitspace-plugin.toml'' evilFs = Inr evilManifest"
    and c: "\<forall>s\<in>set (Sources evilManifest).
             \<exists>k. keyOf exEnv (Join [Join [''/h/.ssot/gitspace/plugins'', Name evilManifest], Path s]) = Some k
                \<and> isFileAt (snd ?r) k"
    using ok by blast+
  from c s k have "isFileAt (snd ?r) [''h'', ''.ssot'', ''gitspace'', ''etc'', ''passwd'']" by simp
  with l 1 show ?thesis by blast
qed

text \<open>
  C1 as stated fails: the manifest staged in /src declares the source
  \<^verbatim>\<open>../../etc/passwd\<close>; it loads without error, the install succeeds, and the file
  /etc/passwd is copied to /h/.ssot/gitspace/etc/passwd, two levels above the plugin's
  directory /h/.ssot/gitspace/plugins/evil.
\<close>

theorem escaping_path_accepted_counterexample:
  "loadPluginManifest exEnv ''/src/gitspace-plugin.toml'' evilFs = Inr evilManifest
   \<and> map Path (Sources evilManifest) = [''../../etc/passwd'']
   \<and> fst (the (installPlugin 1 exEnv ''/src'' evilFs)) = None
   \<and> snd (the (installPlugin 1 exEnv ''/src'' evilFs))
        [''h'', ''.ssot'', ''gitspace'', ''etc'', ''passwd''] = Some (File 420 ''root'')"
  by (simp add: world_defs run_defs)

text \<open>
  C3, as the code has it. \<^verbatim>\<open>loadPluginManifest\<close> returns a manifest as decoded, also
  one with no sources or with an empty entry point. The copy steps never read an entry
  point: changing the entry points of a manifest changes nothing of their outcome. With
  no sources they succeed as soon as the plugin's directory is removed and created again
  and the manifest is copied.
\<close>

theorem manifest_invariants_not_validated:
  assumes "os_ReadFile E manifestPath f = Inr data" and "tomlUnmarshal E data = Inr manifest"
  shows "loadPluginManifest E manifestPath f = Inr manifest
    \<and> installCopy E pluginsDir manifestPath sourceDir
         (manifest\<lparr>Sources := map (\<lambda>s. s\<lparr>EntryPoint := ep s\<rparr>) (Sources manifest)\<rparr>) g
        = installCopy E pluginsDir manifestPath sourceDir manifest g
    \<and> (Sources manifest = [] \<longrightarrow>
         (\<forall>f1 f2 f3.
            os_RemoveAll E (Join [pluginsDir, Name manifest]) g = Inr f1 \<longrightarrow>
            os_MkdirAll E (Join [pluginsDir, Name manifest]) 493 f1 = Inr f2 \<longrightarrow>
            copyFile E manifestPath
              (Join [Join [pluginsDir, Name manifest], ''gitspace-plugin.toml'']) f2 = (None, f3) \<longrightarrow>
            installCopy E pluginsDir manifestPath sourceDir manifest g = (None, f3)))"
proof -
  have a: "loadPluginManifest E manifestPath f = Inr manifest"
    using assms by (rule load_ok)
  have b: "installCopy E pluginsDir manifestPath sourceDir
         (manifest\<lparr>Sources := map (\<lambda>s. s\<lparr>EntryPoint := ep s\<rparr>) (Sources manifest)\<rparr>) g
        = installCopy E pluginsDir manifestPath sourceDir manifest g"
    by (auto simp: installCopy_def Let_def copySources_entry_point
          split: sum.splits prod.splits option.splits)
  have c: "installCopy E pluginsDir manifestPath sourceDir manifest g = (None, f3)"
    if "Sources manifest = []" "os_RemoveAll E (Join [pluginsDir, Name manifest]) g = Inr f1"
      "os_MkdirAll E (Join [pluginsDir, Name manifest]) 493 f1 = Inr f2"
      "copyFile E manifestPath
              (Join [Join [pluginsDir, Name manifest], ''gitspace-plugin.toml'']) f2 = (None, f3)"
    for f1 f2 f3
    using that by (simp add: installCopy_def)
  from a b c show ?thesis by blast
qed

theorem manifest_invariants_not_validated_witness:
  "loadPluginManifest exEnv ''/src/gitspace-plugin.toml'' emptyFs = Inr emptyManifest
   \<and> Sources emptyManifest = []
   \<and> fst (installCopy exEnv ''/h/.ssot/gitspace/plugins'' ''/src/gitspace-plugin.toml'' ''/src''
            emptyManifest emptyFs) = None"
proof -
  let ?pd = "Join [''/h/.ssot/gitspace/plugins'', Name emptyManifest]"
  have r: "os_ReadFile exEnv ''/src/gitspace-plugin.toml'' emptyFs = Inr ''N''"
    by (simp add: world_defs run_defs)
  have u: "tomlUnmarshal exEnv ''N'' = Inr emptyManifest"
    by (simp add: exEnv_def exDecode_def)
  have s: "Sources emptyManifest = []" by (simp add: emptyManifest_def)
  have c: "fst (installCopy exEnv ''/h/.ssot/gitspace/plugins'' ''/src/gitspace-plugin.toml'' ''/src''
            emptyManifest emptyFs) = None"
    by (simp add: world_defs run_defs)
  from manifest_invariants_not_validated [OF r u, of "''/h/.ssot/gitspace/plugins''" "''/src''" EntryPoint emptyFs]
    s c
  show ?thesis by blast
qed

text \<open>
  C3 as stated fails: a manifest with no sources and a manifest whose only source has an
  empty entry point both load without error, and both installs succeed.
\<close>

theorem invalid_manifests_install_counterexample:
  "loadPluginManifest exEnv ''/src/gitspace-plugin.toml'' emptyFs = Inr emptyManifest
   \<and> Sources emptyManifest = []
   \<and> fst (the (installPlugin 1 exEnv ''/src'' emptyFs)) = None
   \<and> loadPluginManifest exEnv ''/src/gitspace-plugin.toml'' noEntryFs = Inr noEntryManifest
   \<and> map EntryPoint (Sources noEntryManifest) = [[]]
   \<and> fst (the (installPlugin 1 exEnv ''/src'' noEntryFs)) = None"
  by (simp add: world_defs run_defs)

subsection \<open>Local sources\<close>

text \<open>
  C7. For a source that is neither a catalog reference nor an http(s) URL, after
  \<^verbatim>\<open>getPluginsDir\<close> and \<^verbatim>\<open>filepath.Abs\<close>: when the absolute source is a directory,
  \<^verbatim>\<open>installPlugin\<close> continues with the manifest \<^verbatim>\<open>gitspace-plugin.toml\<close> in that
  directory and the directory as source root; when it is a regular file with the extension
  \<^verbatim>\<open>.toml\<close>, with that file as manifest and \<^verbatim>\<open>filepath.Dir\<close> of it as source root; a
  regular file with another extension fails with "invalid source: must be a directory or
  .toml file", and a source that \<^verbatim>\<open>os.Stat\<close> cannot find fails with "failed to get
  source info". In both failures the file system is the one \<^verbatim>\<open>getPluginsDir\<close> left,
  which differs from the initial one only by directories on the way to the plugins
  directory. For an absolute source (or working directory) the manifest path names the
  entry \<^verbatim>\<open>gitspace-plugin.toml\<close> of the source directory, and \<^verbatim>\<open>filepath.Dir\<close> names the
  parent of the source.
\<close>

theorem local_source_resolution:
  assumes "\<not> HasPrefix source ''catalog://''"
    and "\<not> HasPrefix source ''http://''" and "\<not> HasPrefix source ''https://''"
    and "getPluginsDir E f = Inr (pluginsDir, f0)"
    and "Abs E source = Inr absSource"
  shows "(\<forall>m. os_Stat E absSource f0 = Inr (Dir m) \<longrightarrow>
            installPlugin (Suc n) E source f =
              Some (installStaged E pluginsDir (Join [absSource, ''gitspace-plugin.toml'']) absSource f0))
       \<and> (\<forall>m c. os_Stat E absSource f0 = Inr (File m c) \<and> Ext absSource = ''.toml'' \<longrightarrow>
            installPlugin (Suc n) E source f =
              Some (installStaged E pluginsDir absSource (Dir_of absSource) f0))
       \<and> (\<forall>m c. os_Stat E absSource f0 = Inr (File m c) \<and> Ext absSource \<noteq> ''.toml'' \<longrightarrow>
            installPlugin (Suc n) E source f =
              Some (Some (Errorf ''invalid source: must be a directory or .toml file''), f0))
       \<and> (\<forall>e. os_Stat E absSource f0 = Inl e \<longrightarrow>
            installPlugin (Suc n) E source f = Some (Some (Wrapf ''failed to get source info'' e), f0))
       \<and> (\<forall>k. f k \<noteq> None \<longrightarrow> f0 k = f k)
       \<and> (\<forall>k pk. keyOf E pluginsDir = Some pk \<and> \<not> prefix k pk \<longrightarrow> f0 k = f k)
       \<and> (IsAbs source \<or> (\<exists>wd. getwd E = Inr wd \<and> IsAbs wd) \<longrightarrow>
            keyOf E (Join [absSource, ''gitspace-plugin.toml'']) =
              Some (absKey absSource @ [''gitspace-plugin.toml''])
          \<and> keyOf E (Dir_of absSource) = Some (butlast (absKey absSource)))"
proof -
  have run: "installPlugin (Suc n) E source f = Some (installLocal E pluginsDir source f0)"
    using assms(1-4) by simp
  have keys: "keyOf E (Join [absSource, ''gitspace-plugin.toml'']) =
              Some (absKey absSource @ [''gitspace-plugin.toml''])
          \<and> keyOf E (Dir_of absSource) = Some (butlast (absKey absSource))"
    if "IsAbs source \<or> (\<exists>wd. getwd E = Inr wd \<and> IsAbs wd)"
  proof -
    from Abs_Clean [OF assms(5) that] obtain q where q: "IsAbs q" "absSource = Clean q" by blast
    then have abs: "IsAbs absSource" by (simp add: IsAbs_Clean)
    have 1: "keyOf E (Join [absSource, ''gitspace-plugin.toml'']) =
              Some (absKey absSource @ [''gitspace-plugin.toml''])"
      using keyOf_abs [OF IsAbs_Join [OF abs]] absKey_Join_simple [OF abs, of "''gitspace-plugin.toml''"]
      by (simp add: simpleName_def)
    have 2: "keyOf E (Dir_of absSource) = Some (butlast (absKey absSource))"
      using Dir_of_clean_abs [OF q(1)] q(2) keyOf_abs [of "Dir_of absSource" E]
      by (simp add: absKey_Clean [OF q(1)])
    from 1 2 show ?thesis ..
  qed
  show ?thesis
    using run assms(5) getPluginsDir_keeps [OF assms(4)] getPluginsDir_changes [OF assms(4)] keys
    by (auto simp: installLocal_def)
qed

theorem local_source_resolution_witness:
  "installPlugin 1 exEnv ''/src'' exFs =
     Some (installStaged exEnv ''/h/.ssot/gitspace/plugins'' ''/src/gitspace-plugin.toml'' ''/src''
             (snd (projr (getPluginsDir exEnv exFs))))
   \<and> keyOf exEnv (Join [''/src'', ''gitspace-plugin.toml'']) = Some [''src'', ''gitspace-plugin.toml'']"
proof -
  let ?f0 = "snd (projr (getPluginsDir exEnv exFs))"
  have g: "getPluginsDir exEnv exFs = Inr (''/h/.ssot/gitspace/plugins'', ?f0)"
    by (simp add: world_defs run_defs)
  have a: "Abs exEnv ''/src'' = Inr ''/src''" by (simp add: world_defs run_defs)
  have st: "os_Stat exEnv ''/src'' ?f0 = Inr (Dir 493)" by (simp add: world_defs run_defs)
  have j: "Join [''/src'', ''gitspace-plugin.toml''] = ''/src/gitspace-plugin.toml''"
    by (simp add: run_defs)
  have k: "absKey ''/src'' = [''src'']" by (simp add: run_defs)
  have abs: "IsAbs ''/src''" by (simp add: IsAbs_def)
  have p: "\<not> HasPrefix ''/src'' ''catalog://''" "\<not> HasPrefix ''/src'' ''http://''"
    "\<not> HasPrefix ''/src'' ''https://''" by (simp_all add: HasPrefix_def)
  from local_source_resolution [OF p g a, of 0] st j k abs
  show ?thesis by (simp add: j)
qed

subsection \<open>A missing source file\<close>

text \<open>
  C8. Let the manifest declare the sources \<open>pre\<close>, then \<open>s\<close>, then \<open>post\<close>; let the
  copy steps up to \<open>s\<close> succeed (they are the copy steps of the manifest cut after
  \<open>pre\<close>) and leave \<open>f4\<close>, in which the file of \<open>s\<close> is missing from the source root.
  Then the copy steps fail with "failed to copy plugin file" followed by the path of
  \<open>s\<close>; nothing is rolled back: every node of \<open>f4\<close> is still there unchanged, the regular
  files are the same, and (for an absolute plugins directory) the copy of the manifest is
  in the plugin's directory.
\<close>

theorem missing_source_aborts_install:
  assumes "Sources manifest = pre @ s # post"
    and "installCopy E pluginsDir manifestPath sourceDir (manifest\<lparr>Sources := pre\<rparr>) f = (None, f4)"
    and "os_Stat E (Join [sourceDir, Path s]) f4 = Inl (PathError ENOENT)"
  shows "\<exists>e f5.
      installCopy E pluginsDir manifestPath sourceDir manifest f =
        (Some (Wrapf (''failed to copy plugin file '' @ Path s) e), f5)
    \<and> ((\<exists>e'. e = Wrapf ''failed to read source file'' e')
       \<or> (\<exists>e'. e = Wrapf ''failed to create destination directory'' e'))
    \<and> (\<forall>k. f4 k \<noteq> None \<longrightarrow> f5 k = f4 k)
    \<and> (\<forall>k. isFileAt f5 k \<longleftrightarrow> isFileAt f4 k)
    \<and> (IsAbs pluginsDir \<longrightarrow>
         isFileAt f5 (absKey (Join [pluginsDir, Name manifest]) @ [''gitspace-plugin.toml'']))"
proof -
  let ?pd = "Join [pluginsDir, Name manifest]"
  let ?m = "manifest\<lparr>Sources := pre\<rparr>"
  from assms(2) obtain f1 f2 f3 where
    1: "os_RemoveAll E ?pd f = Inr f1" and
    2: "os_MkdirAll E ?pd 493 f1 = Inr f2" and
    3: "copyFile E manifestPath (Join [?pd, ''gitspace-plugin.toml'']) f2 = (None, f3)" and
    4: "copySources E sourceDir ?pd pre f3 = (None, f4)"
    by (auto simp: installCopy_def Let_def split: sum.splits prod.splits option.splits)
  from copyFile_missing [OF assms(3), of "Join [?pd, Path s]"] obtain e f5 where
    5: "copyFile E (Join [sourceDir, Path s]) (Join [?pd, Path s]) f4 = (Some e, f5)" and
    e: "(\<exists>e'. e = Wrapf ''failed to read source file'' e')
         \<or> (\<exists>e'. e = Wrapf ''failed to create destination directory'' e')"
    by blast
  have r: "installCopy E pluginsDir manifestPath sourceDir manifest f =
        (Some (Wrapf (''failed to copy plugin file '' @ Path s) e), f5)"
    using 1 2 3 4 5 by (simp add: installCopy_def assms(1) copySources_append)
  note fr = copyFile_err [OF 5]
  have man: "isFileAt f5 (absKey ?pd @ [''gitspace-plugin.toml''])" if "IsAbs pluginsDir"
  proof -
    from that have abs: "IsAbs ?pd" by (rule IsAbs_Join)
    have mk: "keyOf E (Join [?pd, ''gitspace-plugin.toml'']) = Some (absKey ?pd @ [''gitspace-plugin.toml''])"
      using keyOf_abs [OF IsAbs_Join [OF abs]] absKey_Join_simple [OF abs, of "''gitspace-plugin.toml''"]
      by (simp add: simpleName_def)
    have "isFileAt f3 (absKey ?pd @ [''gitspace-plugin.toml''])"
      using copyFile_isFileAt [OF 3 mk] by simp
    then have "isFileAt f4 (absKey ?pd @ [''gitspace-plugin.toml''])"
      using copySources_isFileAt [OF 4] by simp
    with fr show ?thesis by simp
  qed
  from r e fr man show ?thesis by blast
qed

theorem missing_source_aborts_install_witness:
  "fst (installCopy exEnv ''/h/.ssot/gitspace/plugins'' ''/src/gitspace-plugin.toml'' ''/src''
          helloManifest missingFs)
     = Some (Wrapf ''failed to copy plugin file main.go''
              (Wrapf ''failed to read source file'' (PathError ENOENT)))
   \<and> isFileAt (snd (installCopy exEnv ''/h/.ssot/gitspace/plugins'' ''/src/gitspace-plugin.toml'' ''/src''
                      helloManifest missingFs))
        [''h'', ''.ssot'', ''gitspace'', ''plugins'', ''hello'', ''gitspace-plugin.toml'']"
proof -
  let ?s = "\<lparr>Path = ''main.go'', EntryPoint = ''main'', Repo = noRepo\<rparr>"
  let ?pre = "installCopy exEnv ''/h/.ssot/gitspace/plugins'' ''/src/gitspace-plugin.toml'' ''/src''
          (helloManifest\<lparr>Sources := []\<rparr>) missingFs"
  let ?r = "installCopy exEnv ''/h/.ssot/gitspace/plugins'' ''/src/gitspace-plugin.toml'' ''/src''
          helloManifest missingFs"
  have s: "Sources helloManifest = [] @ ?s # []" by (simp add: helloManifest_def)
  have "fst ?pre = None" by (simp add: world_defs run_defs)
  then have ok: "?pre = (None, snd ?pre)" by (metis prod.collapse)
  have st: "os_Stat exEnv (Join [''/src'', Path ?s]) (snd ?pre) = Inl (PathError ENOENT)"
    by (simp add: world_defs run_defs)
  have abs: "IsAbs ''/h/.ssot/gitspace/plugins''" by (simp add: IsAbs_def)
  have k: "absKey (Join [''/h/.ssot/gitspace/plugins'', Name helloManifest])
             = [''h'', ''.ssot'', ''gitspace'', ''plugins'', ''hello'']"
    by (simp add: world_defs run_defs)
  have 1: "fst ?r = Some (Wrapf ''failed to copy plugin file main.go''
              (Wrapf ''failed to read source file'' (PathError ENOENT)))"
    by (simp add: world_defs run_defs)
  from missing_source_aborts_install [OF s ok st] abs k
  have "isFileAt (snd ?r) [''h'', ''.ssot'', ''gitspace'', ''plugins'', ''hello'', ''gitspace-plugin.toml'']"
    by auto
  with 1 show ?thesis by blast
qed

subsection \<open>A manifest that cannot be loaded\<close>

text \<open>
  C9. When the manifest of a staged source cannot be read or decoded, the install returns
  "failed to load manifest" with the file system untouched: loading comes before the
  removal of the plugin's directory. For a whole run of \<^verbatim>\<open>installPlugin\<close> on a local or
  remote source (with a well-formed file system and a \<^verbatim>\<open>git clone\<close> that writes only
  below its destination): when the run returns "failed to load manifest", every node that
  existed before the run is still there unchanged, so an installed plugin of the same
  name is left as it was.
\<close>

theorem manifest_failure_precedes_removal:
  "(loadPluginManifest E manifestPath f0 = Inl e \<longrightarrow>
      installStaged E pluginsDir manifestPath sourceDir f0 =
        (Some (Wrapf ''failed to load manifest'' e), f0))
   \<and> (wf_fs f \<and> gitConfined E \<and> \<not> HasPrefix source ''catalog://''
      \<and> installPlugin (Suc n) E source f = Some (Some (Wrapf ''failed to load manifest'' e), f')
      \<longrightarrow> (\<forall>k. f k \<noteq> None \<longrightarrow> f' k = f k))"
proof -
  have a: "installStaged E pluginsDir manifestPath sourceDir f0 =
        (Some (Wrapf ''failed to load manifest'' e), f0)"
    if "loadPluginManifest E manifestPath f0 = Inl e"
    using that by (simp add: installStaged_def)
  have b: "f' k = f k"
    if wf: "wf_fs f" and git: "gitConfined E" and nc: "\<not> HasPrefix source ''catalog://''"
      and run: "installPlugin (Suc n) E source f = Some (Some (Wrapf ''failed to load manifest'' e), f')"
      and k: "f k \<noteq> None" for k
  proof -
    from run obtain pd g0 where g: "getPluginsDir E f = Inr (pd, g0)"
      by (auto split: sum.splits)
    from g have wf0: "wf_fs g0" by (auto elim!: getPluginsDir_Inr intro: MkdirAll_wf [OF wf])
    from getPluginsDir_keeps [OF g k] k have k0: "g0 k = f k" "g0 k \<noteq> None" by simp_all
    show ?thesis
    proof (cases "HasPrefix source ''http://'' \<or> HasPrefix source ''https://''")
      case False
      with run g nc have l: "installLocal E pd source g0 = (Some (Wrapf ''failed to load manifest'' e), f')"
        by simp
      then have "\<exists>mp sd. installStaged E pd mp sd g0 = (Some (Wrapf ''failed to load manifest'' e), f')"
        by (auto simp: installLocal_def split: sum.splits node.splits if_splits)
      then have "f' = g0" using installStaged_load_error by blast
      with k0 show ?thesis by simp
    next
      case True
      with run g nc have r: "installRemote E pd source g0 = (Some (Wrapf ''failed to load manifest'' e), f')"
        by auto
      then obtain t g1 where t: "os_MkdirTemp E ''gitspace-plugin-*'' g0 = Inr (t, g1)"
        by (auto simp: installRemote_def split: sum.splits)
      then obtain tk where tk: "keyOf E t = Some tk" "g0 tk = None" "g1 = g0(tk \<mapsto> Dir 448)"
        by (rule MkdirTemp_Inr)
      have nk: "\<not> prefix tk k"
      proof
        assume "prefix tk k"
        from wf_none_below [OF wf0 tk(2) this] k0(2) show False by simp
      qed
      obtain r2 g2 where c: "gitClone E source t g1 = (r2, g2)" by fastforce
      from git tk(1) nk have "snd (gitCloneCommand E source t g1) k = g1 k"
        unfolding gitConfined_def by blast
      with c have g2: "g2 k = g1 k"
        by (auto simp: gitClone_def split: prod.splits option.splits)
      from r t c have "r2 = None"
        by (cases r2) (auto simp: installRemote_def deferRemoveAll_def split: prod.splits)
      with r t c obtain g3 where s: "installStaged E pd (Join [t, ''gitspace-plugin.toml'']) t g2
            = (Some (Wrapf ''failed to load manifest'' e), g3)"
        and f': "f' = (case os_RemoveAll E t g3 of Inl x \<Rightarrow> g3 | Inr h \<Rightarrow> h)"
        by (auto simp: installRemote_def deferRemoveAll_def split: prod.splits)
      from installStaged_load_error [OF s] have "g3 = g2" by simp
      with f' have "f' k = g2 k" using tk(1) nk
        by (auto simp: os_RemoveAll_def split: sum.splits if_splits)
      with g2 tk(3) nk k0 show ?thesis by auto
    qed
  qed
  from a b show ?thesis by blast
qed

theorem manifest_failure_precedes_removal_witness:
  "fst (the (installPlugin 1 exEnv ''/src'' brokenFs)) =
     Some (Wrapf ''failed to load manifest''
            (Wrapf ''failed to decode manifest'' (External ''toml: invalid document'')))
   \<and> snd (the (installPlugin 1 exEnv ''/src'' brokenFs))
        [''h'', ''.ssot'', ''gitspace'', ''plugins'', ''hello'', ''gitspace-plugin.toml'']
       = Some (File 420 ''M'')"
proof -
  let ?r = "the (installPlugin 1 exEnv ''/src'' brokenFs)"
  have 1: "fst ?r = Some (Wrapf ''failed to load manifest''
            (Wrapf ''failed to decode manifest'' (External ''toml: invalid document'')))"
    by (simp add: world_defs run_defs)
  have "installPlugin 1 exEnv ''/src'' brokenFs \<noteq> None" by (simp add: world_defs run_defs)
  with 1 have run: "installPlugin (Suc 0) exEnv ''/src'' brokenFs =
      Some (Some (Wrapf ''failed to load manifest''
            (Wrapf ''failed to decode manifest'' (External ''toml: invalid document''))), snd ?r)"
    by (metis One_nat_def option.collapse prod.collapse)
  have git: "gitConfined exEnv" by (simp add: gitConfined_def exEnv_def)
  have nc: "\<not> HasPrefix ''/src'' ''catalog://''" by (simp add: HasPrefix_def)
  have old: "brokenFs [''h'', ''.ssot'', ''gitspace'', ''plugins'', ''hello'', ''gitspace-plugin.toml'']
       = Some (File 420 ''M'')" by (simp add: brokenFs_def)
  from manifest_failure_precedes_removal [where E = exEnv and f = brokenFs and source = "''/src''"
      and n = 0 and f' = "snd ?r"]
    wf_brokenFs git nc run old
  have "snd ?r [''h'', ''.ssot'', ''gitspace'', ''plugins'', ''hello'', ''gitspace-plugin.toml'']
       = Some (File 420 ''M'')" by auto
  with 1 show ?thesis by blast
qed

subsection \<open>Installing twice\<close>



end
